theory Spec2Isabelle
  imports Main "HOL-Library.Sublist"
begin

section \<open>JavaScript values\<close>

text \<open>
  Numbers are modelled as the integer-valued doubles together with \<open>NaN\<close>: \<open>Num n\<close>
  stands for the double whose value is the integer \<open>n\<close> (fractions and the infinities
  are outside the model). The comparisons below are the IEEE ones (every comparison with
  \<open>NaN\<close> is false).
  A \<open>jsval\<close> is a dynamically typed value, used where the source inspects the type
  (\<open>typeof x !== 'number'\<close>); a \<open>field\<close> is an object property of a declared type
  that may be absent (\<open>undefined\<close>) or \<open>null\<close>.
\<close>

datatype jsnum = NaN | Num int

datatype jsval = JUndefined | JNull | JBool bool | JNumber jsnum | JString string

datatype 'a field = Undefined | Null | Val 'a

fun num_lt :: "jsnum \<Rightarrow> jsnum \<Rightarrow> bool" where
  "num_lt (Num a) (Num b) = (a < b)"
| "num_lt _ _ = False"

fun num_gt :: "jsnum \<Rightarrow> jsnum \<Rightarrow> bool" where
  "num_gt (Num a) (Num b) = (a > b)"
| "num_gt _ _ = False"

fun num_eq :: "jsnum \<Rightarrow> jsnum \<Rightarrow> bool" where
  "num_eq (Num a) (Num b) = (a = b)"
| "num_eq _ _ = False"

fun typeof_number :: "jsval \<Rightarrow> bool" where
  "typeof_number (JNumber _) = True"
| "typeof_number _ = False"

fun isNaN :: "jsnum \<Rightarrow> bool" where
  "isNaN NaN = True"
| "isNaN (Num _) = False"

text \<open>\<open>x || null\<close> on a string property: the string when it is truthy (non-empty).\<close>

fun or_null :: "string field \<Rightarrow> string option" where
  "or_null (Val s) = (if s = [] then None else Some s)"
| "or_null _ = None"

definition digit_char :: "nat \<Rightarrow> char" where
  "digit_char n = ''0123456789'' ! (n mod 10)"

fun show_nat :: "nat \<Rightarrow> string" where
  "show_nat n = (if n < 10 then [digit_char n] else show_nat (n div 10) @ [digit_char n])"

definition show_num :: "jsnum \<Rightarrow> string" where
  "show_num x = (case x of NaN \<Rightarrow> ''NaN''
     | Num i \<Rightarrow> if i < 0 then CHR ''-'' # show_nat (nat (- i)) else show_nat (nat i))"

section \<open>Data model\<close>

text \<open>A roster row, as the database returns it and as the client keeps it in its state.\<close>

record student =
  id :: int
  Name :: "string field"
  name :: "string field"
  groupOf :: jsval
  sub_group :: "string field"
  lessons_owed :: "jsnum field"
  availability_string :: "string field"
  availability :: "string field"
  class_name :: "string field"

text \<open>The server function's \<open>StudentDetails\<close>, built by its \<open>getStudentDetails\<close>.\<close>

record StudentDetails =
  sd_id :: int
  sd_name :: string
  sd_groupOf :: jsval
  sd_subGroup :: "string option"
  sd_lessons_owed :: jsnum
  sd_availability_string :: "string field"
  sd_class_name :: "string field"

record pairing_result =
  violation :: bool
  reason :: "string option"

section \<open>Pairing checker, server function\<close>

definition groupSize :: "StudentDetails option \<Rightarrow> jsnum" where
  "groupSize details = (case details of None \<Rightarrow> Num 1
     | Some d \<Rightarrow> (case sd_groupOf d of JNumber g \<Rightarrow> g | _ \<Rightarrow> Num 1))"

definition checkPairingRuleViolation_server ::
  "StudentDetails option \<Rightarrow> StudentDetails option list option \<Rightarrow> jsval \<Rightarrow> pairing_result" where
  "checkPairingRuleViolation_server candidateDetails currentOccupantsDetails capacity =
    (if candidateDetails = None \<or> \<not> typeof_number (sd_groupOf (the candidateDetails))
     then \<lparr>violation = True, reason = Some ''Invalid candidate data.''\<rparr>
     else case currentOccupantsDetails of
       None \<Rightarrow> \<lparr>violation = True, reason = Some ''Invalid current occupants data.''\<rparr>
     | Some occ \<Rightarrow>
        (case capacity of
          JNumber c \<Rightarrow>
           if num_lt c (Num 1)
           then \<lparr>violation = True, reason = Some ''Invalid slot capacity.''\<rparr>
           else
            let potentialOccupantsDetails = occ @ [candidateDetails];
                potentialOccupantCount = length potentialOccupantsDetails
            in if num_gt (Num (int potentialOccupantCount)) c
               then \<lparr>violation = True,
                     reason = Some (''Slot capacity ('' @ show_num c @ '') would be exceeded'')\<rparr>
               else
                let potentialSoloCount =
                      length (filter (\<lambda>d. num_eq (groupSize d) (Num 1)) potentialOccupantsDetails);
                    potentialPairedCount =
                      length (filter (\<lambda>d. \<not> num_eq (groupSize d) (Num 1) \<and> num_eq (groupSize d) (Num 2))
                                potentialOccupantsDetails)
                in if potentialSoloCount > 0 \<and> potentialOccupantCount > 1
                   then \<lparr>violation = True, reason = Some ''Solo lessons cannot have other students''\<rparr>
                   else if potentialSoloCount = 0 \<and> potentialPairedCount > 0 \<and> potentialOccupantCount > 2
                   then \<lparr>violation = True, reason = Some ''Paired lessons cannot exceed 2 students''\<rparr>
                   else \<lparr>violation = False, reason = Some ''''\<rparr>
        | _ \<Rightarrow> \<lparr>violation = True, reason = Some ''Invalid slot capacity.''\<rparr>))"

section \<open>Pairing checker, client module\<close>

text \<open>
  \<open>existingGroupTypes\<close> is a \<open>Set\<close> of the occupants' numeric \<open>groupOf\<close> values; only
  membership and emptiness are asked of it, so the list of those values stands for it.
\<close>

definition existingGroupTypes :: "student option list \<Rightarrow> jsnum list" where
  "existingGroupTypes occ =
     concat (map (\<lambda>x. case x of None \<Rightarrow> []
                        | Some s \<Rightarrow> (case groupOf s of JNumber g \<Rightarrow> [g] | _ \<Rightarrow> [])) occ)"

definition has :: "jsnum list \<Rightarrow> int \<Rightarrow> bool" where
  "has gs k = (Num k \<in> set gs)"

text \<open>The non-null sub-groups of the occupants, in order (\<open>occ?.sub_group || null\<close>).\<close>

definition existingSubGroups :: "student option list \<Rightarrow> string list" where
  "existingSubGroups occ =
     concat (map (\<lambda>x. case x of None \<Rightarrow> []
                        | Some s \<Rightarrow> (case or_null (sub_group s) of None \<Rightarrow> [] | Some g \<Rightarrow> [g])) occ)"

definition subGroupCheck :: "student \<Rightarrow> student option list \<Rightarrow> pairing_result" where
  "subGroupCheck newStudentDetails occ =
    (let newSubGroup = or_null (sub_group newStudentDetails)
     in case existingSubGroups occ of
          [] \<Rightarrow> \<lparr>violation = False, reason = None\<rparr>
        | establishedSubGroup # _ \<Rightarrow>
            (case newSubGroup of
               None \<Rightarrow> \<lparr>violation = False, reason = None\<rparr>
             | Some g \<Rightarrow>
                 if g \<noteq> establishedSubGroup
                 then \<lparr>violation = True,
                       reason = Some (''Cannot mix sub-groups ('' @ [CHR 0x27] @ g @ [CHR 0x27]
                                      @ '' vs existing '' @ [CHR 0x27] @ establishedSubGroup
                                      @ [CHR 0x27] @ '').'')\<rparr>
                 else \<lparr>violation = False, reason = None\<rparr>))"

text \<open>
  The occupant list has the default \<open>[]\<close>: an argument that is \<open>undefined\<close> is the
  list \<open>Some []\<close>, an array is \<open>Some\<close> of its elements, and \<open>None\<close> stands for any
  other value (\<open>null\<close>, an object), which \<open>Array.isArray\<close> refuses.
\<close>

definition checkPairingRuleViolation_client ::
  "student option \<Rightarrow> student option list option \<Rightarrow> jsval \<Rightarrow> pairing_result" where
  "checkPairingRuleViolation_client newStudentDetails currentOccupantDetails slotCapacity =
    (if newStudentDetails = None \<or> \<not> typeof_number (groupOf (the newStudentDetails))
     then \<lparr>violation = True, reason = Some ''Invalid new student data.''\<rparr>
     else case currentOccupantDetails of
       None \<Rightarrow> \<lparr>violation = True, reason = Some ''Invalid current occupants data.''\<rparr>
     | Some occ \<Rightarrow>
        (case slotCapacity of
          JNumber c \<Rightarrow>
           if num_lt c (Num 1)
           then \<lparr>violation = True, reason = Some ''Invalid slot capacity.''\<rparr>
           else
            let new = the newStudentDetails;
                newStudentGroup = (case groupOf new of JNumber g \<Rightarrow> g | _ \<Rightarrow> NaN);
                currentOccupants = length occ;
                newTotalOccupants = currentOccupants + 1
            in if num_gt (Num (int newTotalOccupants)) c
               then \<lparr>violation = True,
                     reason = Some (''Adding student exceeds slot capacity ('' @ show_num c @ '').'')\<rparr>
               else
                let types = existingGroupTypes occ
                in if num_eq newStudentGroup (Num 1)
                   then (if currentOccupants > 0
                         then \<lparr>violation = True,
                               reason = Some ''Cannot add a Solo student to an occupied slot.''\<rparr>
                         else subGroupCheck new occ)
                   else if num_eq newStudentGroup (Num 2)
                   then (if has types 1
                         then \<lparr>violation = True,
                               reason = Some ''Cannot add Paired student to a Solo slot.''\<rparr>
                         else if types \<noteq> [] \<and> \<not> has types 2
                         then \<lparr>violation = True,
                               reason = Some ''Cannot mix Paired students with Group students.''\<rparr>
                         else if newTotalOccupants > 2 \<and> currentOccupants > 0
                         then \<lparr>violation = True,
                               reason = Some ''Cannot exceed 2 students in a Paired slot.''\<rparr>
                         else subGroupCheck new occ)
                   else (if has types 1
                         then \<lparr>violation = True,
                               reason = Some ''Cannot add Group student to a Solo slot.''\<rparr>
                         else if has types 2
                         then \<lparr>violation = True,
                               reason = Some ''Cannot add Group student to a Paired slot.''\<rparr>
                         else subGroupCheck new occ)
        | _ \<Rightarrow> \<lparr>violation = True, reason = Some ''Invalid slot capacity.''\<rparr>))"

section \<open>Strings\<close>

text \<open>
  A string is a list of code units below 256 (the first 256 code points, as in UTF-16);
  the functions below are the JavaScript string methods on such strings. White space is
  what \<open>trim\<close>, \<open>\s\<close> and \<open>parseInt\<close> skip in that range, the no-break space
  included; \<open>toLowerCase\<close> maps the capital letters of that range.
\<close>

definition isDigit :: "char \<Rightarrow> bool" where
  "isDigit c = (c \<in> set ''0123456789'')"

definition isSpace :: "char \<Rightarrow> bool" where
  "isSpace c = (c \<in> set [CHR 0x20, CHR 0x09, CHR 0x0A, CHR 0x0B, CHR 0x0C, CHR 0x0D, CHR 0xA0])"

definition isAlpha :: "char \<Rightarrow> bool" where
  "isAlpha c = (c \<in> set ''abcdefghijklmnopqrstuvwxyzABCDEFGHIJKLMNOPQRSTUVWXYZ'')"

definition isLineTerminator :: "char \<Rightarrow> bool" where
  "isLineTerminator c = (c = CHR 0x0A \<or> c = CHR 0x0D)"

definition trim :: "string \<Rightarrow> string" where
  "trim s = rev (dropWhile isSpace (rev (dropWhile isSpace s)))"

definition lower_char :: "char \<Rightarrow> char" where
  "lower_char c =
     (let n = (of_char c :: nat)
      in if (65 \<le> n \<and> n \<le> 90) \<or> (192 \<le> n \<and> n \<le> 222 \<and> n \<noteq> 215) then char_of (n + 32) else c)"

definition toLowerCase :: "string \<Rightarrow> string" where
  "toLowerCase s = map lower_char s"

definition startsWith :: "string \<Rightarrow> string \<Rightarrow> bool" where
  "startsWith s p = (take (length p) s = p)"

text \<open>\<open>s.split(c)\<close> for a one-character separator.\<close>

fun split_on :: "char \<Rightarrow> string \<Rightarrow> string list" where
  "split_on c [] = [[]]"
| "split_on c (x # xs) =
     (if x = c then [] # split_on c xs
      else (case split_on c xs of [] \<Rightarrow> [[x]] | h # t \<Rightarrow> (x # h) # t))"

definition digit_val :: "char \<Rightarrow> nat" where
  "digit_val c = (case map_of (zip ''0123456789abcdefABCDEF''
                     [0, 1, 2, 3, 4, 5, 6, 7, 8, 9, 10, 11, 12, 13, 14, 15, 10, 11, 12, 13, 14, 15]) c of
                    None \<Rightarrow> 0 | Some v \<Rightarrow> v)"

definition digits_val :: "int \<Rightarrow> string \<Rightarrow> int" where
  "digits_val radix ds = foldl (\<lambda>acc c. acc * radix + int (digit_val c)) 0 ds"

definition isHexDigit :: "char \<Rightarrow> bool" where
  "isHexDigit c = (c \<in> set ''0123456789abcdefABCDEF'')"

text \<open>
  The value of a numeral as a double: the nearest one, ties to the even significand (for
  values below \<open>2 ^ 1024\<close>; a numeral beyond that is \<open>Infinity\<close> in the code and outside
  the model).
\<close>

function bitlen :: "int \<Rightarrow> nat" where
  "bitlen n = (if n \<le> 0 then 0 else Suc (bitlen (n div 2)))"
  by pat_completeness auto
termination
  by (relation "measure nat") auto

function ndigits :: "int \<Rightarrow> nat" where
  "ndigits n = (if n < 10 then 1 else Suc (ndigits (n div 10)))"
  by pat_completeness auto
termination
  by (relation "measure nat") auto

definition roundToDouble :: "int \<Rightarrow> int" where
  "roundToDouble a =
     (if a < 2 ^ 53 then a
      else let e = bitlen a - 53; q = a div 2 ^ e; r = a mod 2 ^ e; h = 2 ^ (e - 1)
           in (if r > h \<or> (r = h \<and> odd q) then q + 1 else q) * 2 ^ e)"

text \<open>
  \<open>parseInt(s)\<close> with no radix: leading white space, an optional sign, an optional
  \<open>0x\<close> prefix, then the longest run of digits; \<open>NaN\<close> when there is none.
\<close>

definition parseInt :: "string \<Rightarrow> jsnum" where
  "parseInt s =
     (let t = dropWhile isSpace s;
          neg = (take 1 t = ''-'');
          u = (if take 1 t = ''-'' \<or> take 1 t = ''+'' then drop 1 t else t);
          hex = (take 2 u = ''0x'' \<or> take 2 u = ''0X'');
          v = (if hex then drop 2 u else u);
          ds = takeWhile (if hex then isHexDigit else isDigit) v;
          n = roundToDouble (digits_val (if hex then 16 else 10) ds)
      in if ds = [] then NaN else Num (if neg then - n else n))"

section \<open>Availability model, client module\<close>

text \<open>
  A \<open>Date\<close> on the epoch day is its number of minutes after midnight (UTC);
  \<open>null\<close> is \<open>None\<close>.
\<close>

text \<open>\<open>^(\d{1,2}):(\d{2})\<close>: hours, minutes and the rest of the string.\<close>

definition match_hm :: "string \<Rightarrow> (nat \<times> nat \<times> string) option" where
  "match_hm s =
     (let h = takeWhile isDigit s; r = dropWhile isDigit s; m = take 2 (drop 1 r)
      in if (length h = 1 \<or> length h = 2) \<and> take 1 r = '':'' \<and> length m = 2 \<and> list_all isDigit m
         then Some (nat (digits_val 10 h), nat (digits_val 10 m), drop 3 r) else None)"

text \<open>\<open>\s*(am|pm)?$\<close>: the period, when the rest of the string matches.\<close>

definition match_period :: "string \<Rightarrow> string option option" where
  "match_period r =
     (let p = dropWhile isSpace r
      in if p = [] then Some None else if p = ''am'' \<or> p = ''pm'' then Some (Some p) else None)"

definition adjust_hours :: "nat \<Rightarrow> string option \<Rightarrow> nat" where
  "adjust_hours hours period =
     (if period = Some ''pm'' \<and> hours \<ge> 1 \<and> hours \<le> 11 then hours + 12
      else if period = Some ''am'' \<and> hours = 12 then 0 else hours)"

definition match_time :: "string \<Rightarrow> (nat \<times> nat) option" where
  "match_time t =
     (let secondsMatch =
            (case match_hm t of None \<Rightarrow> None
             | Some (h, m, r) \<Rightarrow>
                 if take 1 r = '':'' \<and> length (take 2 (drop 1 r)) = 2 \<and> list_all isDigit (take 2 (drop 1 r))
                 then (case match_period (drop 3 r) of None \<Rightarrow> None
                       | Some period \<Rightarrow> Some (adjust_hours h period, m))
                 else None)
      in case secondsMatch of Some hm \<Rightarrow> Some hm
         | None \<Rightarrow>
            (let colonMatch =
                   (case match_hm t of None \<Rightarrow> None
                    | Some (h, m, r) \<Rightarrow>
                        (case match_period r of None \<Rightarrow> None
                         | Some period \<Rightarrow> Some (adjust_hours h period, m)))
             in case colonMatch of Some hm \<Rightarrow> Some hm
                | None \<Rightarrow>
                    if length t = 4 \<and> list_all isDigit t
                    then Some (nat (digits_val 10 (take 2 t)), nat (digits_val 10 (drop 2 t)))
                    else None))"

definition parseTime :: "string \<Rightarrow> nat option" where
  "parseTime timeString =
     (if timeString = [] then None
      else case match_time (toLowerCase (trim timeString)) of
             None \<Rightarrow> None
           | Some (hours, minutes) \<Rightarrow>
               if hours > 23 \<or> minutes > 59 then None else Some (hours * 60 + minutes))"

definition pad2 :: "nat \<Rightarrow> string" where
  "pad2 n = (if n < 10 then CHR ''0'' # show_nat n else show_nat n)"

definition formatTime :: "nat option \<Rightarrow> string option" where
  "formatTime date = (case date of None \<Rightarrow> None
     | Some t \<Rightarrow> Some (pad2 ((t div 60) mod 24) @ '':'' @ pad2 (t mod 60)))"

text \<open>A \<open>Set\<close> of strings, in insertion order.\<close>

definition set_add :: "string \<Rightarrow> string list \<Rightarrow> string list" where
  "set_add x xs = (if x \<in> set xs then xs else xs @ [x])"

text \<open>The \<open>while (currentTime <= endTime)\<close> loop of the range branch.\<close>

function expandRange :: "nat \<Rightarrow> nat \<Rightarrow> string list \<Rightarrow> string list" where
  "expandRange currentTime endTime tms =
     (if currentTime \<le> endTime
      then expandRange (currentTime + 30) endTime
             (case formatTime (Some currentTime) of None \<Rightarrow> tms | Some f \<Rightarrow> set_add f tms)
      else tms)"
  by pat_completeness auto
termination
  by (relation "measure (\<lambda>(c, e, t). Suc e - c)") auto

definition addTime :: "string list \<Rightarrow> string \<Rightarrow> string list" where
  "addTime tms time =
     (if CHR ''-'' \<in> set time
      then (let parts = split_on CHR ''-'' time;
                startTime = parseTime (parts ! 0);
                endTime = parseTime (parts ! 1)
            in case (startTime, endTime) of
                 (Some s, Some e) \<Rightarrow> if s < e then expandRange s e tms else tms
               | _ \<Rightarrow> tms)
      else (case formatTime (parseTime time) of None \<Rightarrow> tms | Some f \<Rightarrow> set_add f tms))"

definition validDays :: "string list" where
  "validDays = [''monday'', ''tuesday'', ''wednesday'', ''thursday'', ''friday'', ''saturday'', ''sunday'']"

text \<open>\<open>split(/\n|;(?=\s*[A-Za-z])/)\<close>.\<close>

definition lookahead_day :: "string \<Rightarrow> bool" where
  "lookahead_day xs = (case dropWhile isSpace xs of [] \<Rightarrow> False | c # _ \<Rightarrow> isAlpha c)"

fun split_entries :: "string \<Rightarrow> string list" where
  "split_entries [] = [[]]"
| "split_entries (x # xs) =
     (if x = CHR 0x0A \<or> (x = CHR '';'' \<and> lookahead_day xs) then [] # split_entries xs
      else (case split_entries xs of [] \<Rightarrow> [[x]] | h # t \<Rightarrow> (x # h) # t))"

text \<open>
  \<open>entry.split(/:(.+)/)\<close>: \<open>parts[0]\<close> and \<open>parts[1]\<close> at the first colon that a
  character other than a line terminator follows; \<open>None\<close> when \<open>parts.length < 2\<close>.
\<close>

fun split_colon :: "string \<Rightarrow> (string \<times> string) option" where
  "split_colon [] = None"
| "split_colon (x # xs) =
     (if x = CHR '':'' \<and> xs \<noteq> [] \<and> \<not> isLineTerminator (hd xs)
      then Some ([], takeWhile (\<lambda>c. \<not> isLineTerminator c) xs)
      else (case split_colon xs of None \<Rightarrow> None | Some (a, b) \<Rightarrow> Some (x # a, b)))"

type_synonym availability = "string \<rightharpoonup> string list"

definition parseEntry :: "availability \<Rightarrow> string \<Rightarrow> availability" where
  "parseEntry avail entry =
     (case split_colon entry of
        None \<Rightarrow> avail
      | Some (p0, p1) \<Rightarrow>
          (let day = toLowerCase (trim p0)
           in if day \<notin> set validDays then avail
              else let timePart = trim p1
                   in if timePart = [] then avail
                      else let tms0 = (case avail day of None \<Rightarrow> [] | Some ts \<Rightarrow> ts);
                               tms = filter (\<lambda>t. t \<noteq> []) (map trim (split_on CHR '';'' timePart))
                           in avail(day \<mapsto> foldl addTime tms0 tms)))"

definition parseAvailability :: "string field \<Rightarrow> availability" where
  "parseAvailability availabilityString =
     (case availabilityString of
        Val s \<Rightarrow> if s = [] then Map.empty
                 else foldl parseEntry Map.empty
                        (filter (\<lambda>e. e \<noteq> []) (map trim (split_entries s)))
      | _ \<Rightarrow> Map.empty)"

text \<open>
  The query. The cache argument is an object keyed by student id that the function
  fills in; the model returns it next to the answer. The parsed table is a plain object
  read with \<open>parsedAvailability[targetDayLower]\<close>: for a name that the empty object
  inherits from \<open>Object.prototype\<close>, the value read is not a \<open>Set\<close> and the call of
  \<open>has\<close> throws. (After \<open>toLowerCase\<close> only the first two names can occur.)
\<close>

datatype js_error = TypeError

definition objectPrototypeKeys :: "string list" where
  "objectPrototypeKeys =
     [''constructor'', ''__proto__'', ''hasOwnProperty'', ''isPrototypeOf'',
      ''propertyIsEnumerable'', ''toLocaleString'', ''toString'', ''valueOf'',
      ''__defineGetter__'', ''__defineSetter__'', ''__lookupGetter__'', ''__lookupSetter__'']"

definition isStudentAvailable_client ::
  "student option \<Rightarrow> string \<Rightarrow> string \<Rightarrow> (int \<rightharpoonup> availability)
     \<Rightarrow> (js_error + bool) \<times> (int \<rightharpoonup> availability)" where
  "isStudentAvailable_client studentDetails targetDay targetTime parsedAvailabilityCache =
     (case studentDetails of
        None \<Rightarrow> (Inr False, parsedAvailabilityCache)
      | Some sd \<Rightarrow>
          (if targetDay = [] \<or> targetTime = [] then (Inr False, parsedAvailabilityCache)
           else
            (let studentId = id sd;
                 availabilityString =
                   (if or_null (availability_string sd) \<noteq> None then availability_string sd
                    else availability sd);
                 parsedAvailability =
                   (case parsedAvailabilityCache studentId of
                      None \<Rightarrow> parseAvailability availabilityString
                    | Some p \<Rightarrow> p);
                 cache' =
                   (case parsedAvailabilityCache studentId of
                      None \<Rightarrow> fun_upd parsedAvailabilityCache studentId (Some parsedAvailability)
                    | Some p \<Rightarrow> parsedAvailabilityCache);
                 targetDayLower = toLowerCase targetDay
             in (case formatTime (parseTime targetTime) of
                   None \<Rightarrow> (Inr False, cache')
                 | Some targetTimeFormatted \<Rightarrow>
                     (case parsedAvailability targetDayLower of
                        None \<Rightarrow>
                          (if targetDayLower \<in> set objectPrototypeKeys then (Inl TypeError, cache')
                           else (Inr False, cache'))
                      | Some availableTimesForDay \<Rightarrow>
                          (Inr (targetTimeFormatted \<in> set availableTimesForDay), cache'))))))"

section \<open>Availability check, server function\<close>

text \<open>\<open>/^\d{2}:\d{2}$/\<close>.\<close>

definition timeRegex :: "string \<Rightarrow> bool" where
  "timeRegex t = (length t = 5 \<and> isDigit (t ! 0) \<and> isDigit (t ! 1) \<and> t ! 2 = CHR '':''
                  \<and> isDigit (t ! 3) \<and> isDigit (t ! 4))"

definition validDays_server :: "string list" where
  "validDays_server = [''Monday'', ''Tuesday'', ''Wednesday'', ''Thursday'', ''Friday'', ''Saturday'', ''Sunday'']"

definition push_time :: "availability \<Rightarrow> string \<Rightarrow> string \<Rightarrow> availability" where
  "push_time avail day timePart =
     (if timeRegex timePart
      then (let cur = (case avail day of None \<Rightarrow> [] | Some ts \<Rightarrow> ts)
            in avail(day \<mapsto> (if timePart \<in> set cur then cur else cur @ [timePart])))
      else avail)"

text \<open>One round of \<open>entries.forEach\<close>; the state is the table and \<open>currentDay\<close>.\<close>

definition serverEntry :: "availability \<times> string option \<Rightarrow> string \<Rightarrow> availability \<times> string option" where
  "serverEntry st entry0 =
     (let avail = fst st; currentDay = snd st; entry = trim entry0
      in if entry = [] then st
         else case find (\<lambda>day. startsWith entry (day @ '':'')) validDays_server of
                Some foundDay \<Rightarrow>
                  (push_time avail foundDay (take 5 (trim (drop (length foundDay + 1) entry))),
                   Some foundDay)
              | None \<Rightarrow>
                  (case currentDay of
                     Some d \<Rightarrow> (push_time avail d (take 5 entry), currentDay)
                   | None \<Rightarrow> st))"

text \<open>
  The source returns \<open>availability[targetDay] && availability[targetDay].includes(...)\<close>,
  which is \<open>undefined\<close> for a day without entry; its only caller negates the result, and
  the model returns its truth value. For a target day that the table object inherits,
  \<open>includes\<close> is not a function and the call throws; the body sits in a \<open>try\<close> whose
  \<open>catch\<close> returns \<open>false\<close>.
\<close>

definition lookupDay :: "availability \<Rightarrow> string \<Rightarrow> string \<Rightarrow> js_error + bool" where
  "lookupDay avail targetDay targetTimeHHMM =
     (case avail targetDay of
        None \<Rightarrow> if targetDay \<in> set objectPrototypeKeys then Inl TypeError else Inr False
      | Some ts \<Rightarrow> Inr (targetTimeHHMM \<in> set ts))"

definition isStudentAvailable_server :: "string field \<Rightarrow> string \<Rightarrow> string \<Rightarrow> bool" where
  "isStudentAvailable_server availabilityString targetDay targetTime =
     (case or_null availabilityString of
        None \<Rightarrow> False
      | Some s \<Rightarrow>
          if targetDay = [] \<or> targetTime = [] \<or> length targetTime < 5 then False
          else let targetTimeHHMM = take 5 targetTime
               in if \<not> timeRegex targetTimeHHMM then False
                  else (case lookupDay (fst (foldl serverEntry (Map.empty, None) (split_on CHR '';'' s)))
                               targetDay targetTimeHHMM of
                          Inl e \<Rightarrow> False
                        | Inr b \<Rightarrow> b))"

section \<open>Block model\<close>

record DailyBlock =
  block_date :: string
  block_type :: string
  block_identifier :: "string option"

text \<open>The \<open>for (const block of blocks)\<close> loop, with its early returns.\<close>

fun blockLoop :: "string field \<Rightarrow> string \<Rightarrow> int \<Rightarrow> DailyBlock list \<Rightarrow> bool" where
  "blockLoop cls blockDate coachId [] = False"
| "blockLoop cls blockDate coachId (block # blocks) =
     (if block_date block \<noteq> blockDate then blockLoop cls blockDate coachId blocks
      else if block_type block = ''Public Holiday'' then True
      else if block_type block = ''Year Level Absence'' then
        (case (block_identifier block, or_null cls) of
           (Some ident, Some c) \<Rightarrow>
             if ident \<noteq> [] \<and> startsWith c ident then True
             else blockLoop cls blockDate coachId blocks
         | _ \<Rightarrow> blockLoop cls blockDate coachId blocks)
      else if block_type block = ''Class Absence'' then
        (case (block_identifier block, or_null cls) of
           (Some ident, Some c) \<Rightarrow>
             if ident \<noteq> [] \<and> c = ident then True
             else blockLoop cls blockDate coachId blocks
         | _ \<Rightarrow> blockLoop cls blockDate coachId blocks)
      else if block_type block = ''Coach Unavailable'' then
        (case block_identifier block of
           Some ident \<Rightarrow>
             if ident \<noteq> [] \<and> parseInt ident = Num coachId then True
             else blockLoop cls blockDate coachId blocks
         | None \<Rightarrow> blockLoop cls blockDate coachId blocks)
      else blockLoop cls blockDate coachId blocks)"

definition isStudentBlocked_server ::
  "StudentDetails option \<Rightarrow> string field \<Rightarrow> int \<Rightarrow> DailyBlock list option \<Rightarrow> bool" where
  "isStudentBlocked_server studentDetails blockDate coachId blocks =
     (case (studentDetails, or_null blockDate, blocks) of
        (Some sd, Some d, Some bs) \<Rightarrow> blockLoop (sd_class_name sd) d coachId bs
      | _ \<Rightarrow> False)"

definition isStudentBlocked_client ::
  "student option \<Rightarrow> string field \<Rightarrow> int \<Rightarrow> DailyBlock list option \<Rightarrow> bool" where
  "isStudentBlocked_client studentDetails blockDate coachId blocks =
     (case (studentDetails, or_null blockDate, blocks) of
        (Some sd, Some d, Some bs) \<Rightarrow> blockLoop (class_name sd) d coachId bs
      | _ \<Rightarrow> False)"

section \<open>Student lookup, server function\<close>

definition getStudentDetails_server :: "int \<Rightarrow> student list \<Rightarrow> StudentDetails option" where
  "getStudentDetails_server studentId allStudentsData =
     (case find (\<lambda>s. id s = studentId) allStudentsData of
        None \<Rightarrow> None
      | Some s \<Rightarrow>
          Some \<lparr>sd_id = id s,
                sd_name = (case or_null (Name s) of Some n \<Rightarrow> n
                           | None \<Rightarrow> (case or_null (name s) of Some n \<Rightarrow> n
                                        | None \<Rightarrow> ''Unknown Student'')),
                sd_groupOf = (if typeof_number (groupOf s) then groupOf s else JNumber (Num 1)),
                sd_subGroup = or_null (sub_group s),
                sd_lessons_owed = (case lessons_owed s of Val n \<Rightarrow> n | _ \<Rightarrow> Num 0),
                sd_availability_string = availability_string s,
                sd_class_name = class_name s\<rparr>)"

section \<open>Slot recommender, server function\<close>

record SlotInfo =
  schedule_id :: int
  day_of_week :: string
  start_time :: string
  capacity :: int
  coach_id :: int
  coach_name :: string
  original_student_ids :: "int list option"
  current_occupants :: int
  slot_date :: "string field"

record RecommendedGroupMember =
  student_id :: int
  m_name :: string
  m_lessons_owed :: jsnum
  m_groupOf :: jsval
  m_subGroup :: "string option"

record ResultSlot = SlotInfo +
  recommended_group :: "RecommendedGroupMember list"

definition potentialCandidates :: "student list \<Rightarrow> student list" where
  "potentialCandidates allStudentsData =
     filter (\<lambda>s. case lessons_owed s of Val n \<Rightarrow> num_gt n (Num 0) | _ \<Rightarrow> False) allStudentsData"

definition existingStudentsDetails :: "student list \<Rightarrow> ('a SlotInfo_scheme) \<Rightarrow> StudentDetails list" where
  "existingStudentsDetails allStudentsData slot =
     List.map_filter (\<lambda>i. getStudentDetails_server i allStudentsData)
       (case original_student_ids slot of None \<Rightarrow> [] | Some ids \<Rightarrow> ids)"

definition targetSubGroup :: "StudentDetails list \<Rightarrow> string option" where
  "targetSubGroup existing =
     (case existing of [] \<Rightarrow> None
      | d # _ \<Rightarrow> (case sd_subGroup d of None \<Rightarrow> None
                    | Some g \<Rightarrow> if g = [] then None else Some g))"

text \<open>The predicate of the \<open>.filter\<close> that builds \<open>candidatesForSlot\<close>.\<close>

definition slotFilter ::
  "('a SlotInfo_scheme) \<Rightarrow> string option \<Rightarrow> DailyBlock list \<Rightarrow> StudentDetails \<Rightarrow> bool" where
  "slotFilter slot target allBlocks candDetails =
     (if (case original_student_ids slot of None \<Rightarrow> False | Some ids \<Rightarrow> sd_id candDetails \<in> set ids)
      then False
      else if \<not> isStudentAvailable_server (sd_availability_string candDetails)
                  (day_of_week slot) (start_time slot) then False
      else if target \<noteq> None \<and> sd_subGroup candDetails \<noteq> target then False
      else if isStudentBlocked_server (Some candDetails) (slot_date slot) (coach_id slot) (Some allBlocks)
      then False
      else True)"

definition candidatesForSlot ::
  "student list \<Rightarrow> DailyBlock list \<Rightarrow> ('a SlotInfo_scheme) \<Rightarrow> StudentDetails list" where
  "candidatesForSlot allStudentsData allBlocks slot =
     filter (slotFilter slot (targetSubGroup (existingStudentsDetails allStudentsData slot)) allBlocks)
       (List.map_filter (\<lambda>cand. getStudentDetails_server (id cand) allStudentsData)
          (potentialCandidates allStudentsData))"

text \<open>
  \<open>candidatesForSlot.sort((a, b) => b.lessons_owed - a.lessons_owed)\<close>. The sort of the
  language is stable, so for keys that are numbers its result is that of the insertion
  sort below: an element goes before the first later one that the comparator ranks
  strictly higher. (With a \<open>NaN\<close> key the comparator is not consistent and the order is
  left to the engine; no candidate has one, since a candidate owes more than 0.)
\<close>

fun insertByOwed :: "StudentDetails \<Rightarrow> StudentDetails list \<Rightarrow> StudentDetails list" where
  "insertByOwed x [] = [x]"
| "insertByOwed x (y # ys) =
     (if num_gt (sd_lessons_owed y) (sd_lessons_owed x) then y # insertByOwed x ys else x # y # ys)"

definition sortByOwed :: "StudentDetails list \<Rightarrow> StudentDetails list" where
  "sortByOwed xs = foldr insertByOwed xs []"

definition toMember :: "StudentDetails \<Rightarrow> RecommendedGroupMember" where
  "toMember candidate =
     \<lparr>student_id = sd_id candidate, m_name = sd_name candidate,
      m_lessons_owed = sd_lessons_owed candidate, m_groupOf = sd_groupOf candidate,
      m_subGroup = sd_subGroup candidate\<rparr>"

text \<open>
  The greedy loop. Its state is \<open>recommended_group\<close> (kept here as the accepted
  candidates, snapshotted at the end), \<open>currentTestOccupants\<close> and
  \<open>currentCompulsorySubGroup\<close>.
\<close>

fun greedy ::
  "int \<Rightarrow> int \<Rightarrow> StudentDetails list \<Rightarrow> StudentDetails list \<Rightarrow> StudentDetails list
     \<Rightarrow> string option \<Rightarrow> StudentDetails list" where
  "greedy neededCount cap [] accepted currentTestOccupants compulsory = accepted"
| "greedy neededCount cap (candidate # rest) accepted currentTestOccupants compulsory =
     (if int (length accepted) \<ge> neededCount then accepted
      else if compulsory \<noteq> None \<and> sd_subGroup candidate \<noteq> compulsory
      then greedy neededCount cap rest accepted currentTestOccupants compulsory
      else if \<not> violation (checkPairingRuleViolation_server (Some candidate)
                               (Some (map Some currentTestOccupants)) (JNumber (Num cap)))
      then greedy neededCount cap rest (accepted @ [candidate]) (currentTestOccupants @ [candidate])
             (if length (accepted @ [candidate]) = 1 \<and> compulsory = None
                 \<and> sd_subGroup candidate \<noteq> None
              then sd_subGroup candidate else compulsory)
      else greedy neededCount cap rest accepted currentTestOccupants compulsory)"

text \<open>One round of the loop over the slots; \<open>None\<close> is the \<open>continue\<close> of a full slot.\<close>

definition recommendForSlot ::
  "student list \<Rightarrow> DailyBlock list \<Rightarrow> SlotInfo \<Rightarrow> ResultSlot option" where
  "recommendForSlot allStudentsData allBlocks slot =
     (let neededCount = capacity slot - current_occupants slot
      in if neededCount \<le> 0 then None
         else let existing = existingStudentsDetails allStudentsData slot;
                  sorted = sortByOwed (candidatesForSlot allStudentsData allBlocks slot);
                  accepted = greedy neededCount (capacity slot) sorted [] existing (targetSubGroup existing)
              in Some (SlotInfo.extend (slot\<lparr>start_time := take 5 (start_time slot)\<rparr>)
                         (ResultSlot.fields (map toMember accepted))))"

section \<open>Student lookup, client module\<close>

text \<open>
  The client's lookup writes into the record it finds. \<open>normalise\<close> is the sequence of
  those writes; the function returns its result and the roster as it leaves it.
\<close>

datatype lookup = LNull | LUnknown jsval | LUnknownDefaults jsval | LFound student

definition normalise :: "student \<Rightarrow> student" where
  "normalise foundStudent =
     foundStudent
       \<lparr>Name := (if Name foundStudent = Undefined
                 then (if name foundStudent \<noteq> Undefined then name foundStudent else Null)
                 else Name foundStudent),
        groupOf := (case groupOf foundStudent of
                      JNumber g \<Rightarrow> if isNaN g then JNumber (Num 1) else JNumber g
                    | _ \<Rightarrow> JNumber (Num 1)),
        sub_group := (if sub_group foundStudent = Undefined then Null else sub_group foundStudent),
        class_name := (if class_name foundStudent = Undefined then Null else class_name foundStudent),
        availability_string :=
          (if availability_string foundStudent = Undefined
           then (case or_null (availability foundStudent) of Some a \<Rightarrow> Val a | None \<Rightarrow> Null)
           else availability_string foundStudent)\<rparr>"

text \<open>
  \<open>parseInt(v)\<close> reads the string of \<open>v\<close>. A number below \<open>10 ^ 21\<close> in magnitude is
  written as its decimal numeral; from there on it is written with an exponent
  (\<open>1.2e+21\<close>), of which \<open>parseInt\<close> reads the digit before the point: the digit \<open>d\<close>
  of the one-digit numeral \<open>d * 10 ^ k\<close> that denotes the same double, when there is one,
  and the leading digit of the number otherwise.
\<close>

definition exponentLead :: "int \<Rightarrow> int" where
  "exponentLead a =
     (let k = ndigits a - 1
      in case find (\<lambda>m. roundToDouble m = a)
                (map (\<lambda>d. d * 10 ^ k) [1, 2, 3, 4, 5, 6, 7, 8, 9] @ [10 ^ (k + 1)]) of
           Some m \<Rightarrow> m div 10 ^ (ndigits m - 1)
         | None \<Rightarrow> a div 10 ^ k)"

definition parseInt_val :: "jsval \<Rightarrow> jsnum" where
  "parseInt_val v =
     (case v of
        JNumber NaN \<Rightarrow> NaN
      | JNumber (Num n) \<Rightarrow>
          if \<bar>n\<bar> < 10 ^ 21 then Num n else Num (sgn n * exponentLead \<bar>n\<bar>)
      | JString s \<Rightarrow> parseInt s
      | _ \<Rightarrow> NaN)"

fun find_index_of :: "('a \<Rightarrow> bool) \<Rightarrow> 'a list \<Rightarrow> nat option" where
  "find_index_of P [] = None"
| "find_index_of P (x # xs) = (if P x then Some 0 else map_option Suc (find_index_of P xs))"

definition getStudentDetails_client :: "jsval \<Rightarrow> student list \<Rightarrow> lookup \<times> student list" where
  "getStudentDetails_client studentId studentsData =
     (if studentsData = [] then (LUnknown studentId, studentsData)
      else if studentId = JNull \<or> studentId = JUndefined then (LNull, studentsData)
      else case parseInt_val studentId of
             NaN \<Rightarrow> (LUnknown studentId, studentsData)
           | Num idToFind \<Rightarrow>
               (case find_index_of (\<lambda>s. id s = idToFind) studentsData of
                  None \<Rightarrow> (LUnknownDefaults studentId, studentsData)
                | Some i \<Rightarrow>
                    (let foundStudent = normalise (studentsData ! i);
                         studentsData' = studentsData[i := foundStudent]
                     in if Name foundStudent = Null then (LUnknownDefaults studentId, studentsData')
                        else (LFound foundStudent, studentsData'))))"

section \<open>Effective capacity, client schedule view\<close>

text \<open>
  The computation in \<open>createSlotElement\<close>. \<open>dbCapacity\<close> is \<open>parseInt(slot.capacity, 10)\<close>
  and \<open>studentsData\<close> is \<open>appState?.studentsData\<close> (\<open>None\<close> when it is missing). Every
  original id goes through the client's lookup, one after the other on the roster as the
  lookup before left it; a detail counts with its \<open>groupOf\<close>, which is 1 in the default
  object that the lookup returns for an id it does not find.
\<close>

definition detailGroupOf :: "lookup \<Rightarrow> jsval" where
  "detailGroupOf d =
     (case d of LFound s \<Rightarrow> groupOf s | LUnknownDefaults _ \<Rightarrow> JNumber (Num 1) | _ \<Rightarrow> JUndefined)"

fun lookupAll :: "int list \<Rightarrow> student list \<Rightarrow> lookup list \<times> student list" where
  "lookupAll [] studentsData = ([], studentsData)"
| "lookupAll (i # ids) studentsData =
     (let r = getStudentDetails_client (JNumber (Num i)) studentsData;
          rest = lookupAll ids (snd r)
      in (fst r # fst rest, snd rest))"

definition effectiveCapacity :: "jsnum \<Rightarrow> int list \<Rightarrow> student list option \<Rightarrow> nat \<Rightarrow> int" where
  "effectiveCapacity dbCapacity originalStudentIds studentsData currentOccupants =
     (let validDbCapacity = (case dbCapacity of Num c \<Rightarrow> if c > 0 then c else 3 | NaN \<Rightarrow> 3);
          eff =
            (case studentsData of
               None \<Rightarrow> validDbCapacity
             | Some roster \<Rightarrow>
                 if originalStudentIds = [] then validDbCapacity
                 else (let originalStudentDetails = fst (lookupAll originalStudentIds roster);
                           hasSolo = list_ex (\<lambda>d. detailGroupOf d = JNumber (Num 1)) originalStudentDetails;
                           hasPaired = list_ex (\<lambda>d. detailGroupOf d = JNumber (Num 2)) originalStudentDetails
                       in if hasSolo then 1 else if hasPaired then 2 else validDbCapacity))
      in max eff (int currentOccupants))"

section \<open>Example data\<close>

text \<open>
  A roster row with a name, a group size, a sub-group and a number of lessons owed,
  available on Mondays at 09:00, in class Year 7A; and a Monday 09:00 slot of coach 7
  with a stored capacity, a count of current occupants, its original students and a date.
\<close>

definition rosterRow :: "int \<Rightarrow> string \<Rightarrow> jsval \<Rightarrow> string field \<Rightarrow> int \<Rightarrow> student" where
  "rosterRow i n g sg owed =
     \<lparr>id = i, Name = Val n, name = Undefined, groupOf = g, sub_group = sg,
      lessons_owed = Val (Num owed), availability_string = Val ''Monday: 09:00'',
      availability = Undefined, class_name = Val ''Year 7A''\<rparr>"

definition mondaySlot :: "int \<Rightarrow> int \<Rightarrow> int list \<Rightarrow> string field \<Rightarrow> SlotInfo" where
  "mondaySlot cap cur originals date =
     \<lparr>schedule_id = 1, day_of_week = ''Monday'', start_time = ''09:00:00'', capacity = cap,
      coach_id = 7, coach_name = ''Coach'', original_student_ids = Some originals,
      current_occupants = cur, slot_date = date\<rparr>"

definition holiday :: "string \<Rightarrow> DailyBlock" where
  "holiday d = \<lparr>block_date = d, block_type = ''Public Holiday'', block_identifier = None\<rparr>"

definition details :: "int \<Rightarrow> jsval \<Rightarrow> string option \<Rightarrow> StudentDetails" where
  "details i g sg =
     \<lparr>sd_id = i, sd_name = ''S'', sd_groupOf = g, sd_subGroup = sg, sd_lessons_owed = Num 1,
      sd_availability_string = Val ''Monday: 09:00'', sd_class_name = Val ''Year 7A''\<rparr>"

text \<open>
  Three paired students: Pat is the original student of a slot, Ria is in it as a
  fill-in, and Quin owes a lesson.
\<close>

definition pairedRoster :: "student list" where
  "pairedRoster =
     [rosterRow 1 ''Pat'' (JNumber (Num 2)) Null 0, rosterRow 2 ''Ria'' (JNumber (Num 2)) Null 0,
      rosterRow 3 ''Quin'' (JNumber (Num 2)) Null 1]"

text \<open>Three students of a group of three who owe a lesson each.\<close>

definition groupRoster :: "student list" where
  "groupRoster =
     [rosterRow 4 ''Gus'' (JNumber (Num 3)) Null 1, rosterRow 5 ''Hal'' (JNumber (Num 3)) Null 1,
      rosterRow 6 ''Ida'' (JNumber (Num 3)) Null 1]"

section \<open>The pairing checker\<close>

text \<open>
  What the client's checker does for a group candidate: any solo or paired occupant is a
  violation, whatever the capacity.
\<close>

lemma client_group_mixing:
  assumes "groupOf c = JNumber (Num g)" and "g \<ge> 3"
    and "list_ex (\<lambda>x. case x of None \<Rightarrow> False
                       | Some s \<Rightarrow> groupOf s = JNumber (Num 1) \<or> groupOf s = JNumber (Num 2)) occ"
  shows "violation (checkPairingRuleViolation_client (Some c) (Some occ) cap)"
proof -
  from assms(3) obtain s where s: "Some s \<in> set occ"
      "groupOf s = JNumber (Num 1) \<or> groupOf s = JNumber (Num 2)"
    by (auto simp: list_ex_iff split: option.splits)
  then have "has (existingGroupTypes occ) 1 \<or> has (existingGroupTypes occ) 2"
    by (force simp: has_def existingGroupTypes_def split: option.splits jsval.splits)
  then show ?thesis using assms(1,2)
    by (cases cap) (auto simp: checkPairingRuleViolation_client_def Let_def split: jsnum.splits)
qed

text \<open>The server's checker refuses every candidate once an occupant is solo.\<close>

lemma server_solo_occupant:
  assumes "list_ex (\<lambda>x. case x of None \<Rightarrow> False | Some s \<Rightarrow> sd_groupOf s = JNumber (Num 1)) occ"
  shows "violation (checkPairingRuleViolation_server (Some c) (Some occ) cap)"
proof -
  from assms obtain s where s: "Some s \<in> set occ" "sd_groupOf s = JNumber (Num 1)"
    by (auto simp: list_ex_iff split: option.splits)
  then have "filter (\<lambda>d. num_eq (groupSize d) (Num 1)) occ \<noteq> []"
    by (auto simp: filter_empty_conv groupSize_def intro!: bexI[of _ "Some s"])
  moreover have "occ \<noteq> []" using s by auto
  ultimately show ?thesis
    by (cases cap) (auto simp: checkPairingRuleViolation_server_def Let_def)
qed

text \<open>
  C2. Group mixing: a candidate with \<open>groupOf \<ge> 3\<close> may not join a slot that holds a solo or
  a paired student, in the server's checker and in the client's. The server's checker has
  no such rule: for a group candidate, one paired occupant and capacity 3 it reports no
  violation, where the client's checker, on the same input, reports one.
\<close>

theorem C2_server_admits_group_into_paired_slot:
  "violation (checkPairingRuleViolation_server
       (Some (details 1 (JNumber (Num 3)) None))
       (Some [Some (details 2 (JNumber (Num 2)) None)]) (JNumber (Num 3))) = False
   \<and> violation (checkPairingRuleViolation_client
       (Some (rosterRow 1 ''G'' (JNumber (Num 3)) Null 1))
       (Some [Some (rosterRow 2 ''P'' (JNumber (Num 2)) Null 0)]) (JNumber (Num 3))) = True"
  by code_simp

text \<open>
  Inputs of the wrong type are refused with a reason, by both checkers: no candidate, a
  \<open>groupOf\<close> that is not of type number, an occupant list that is not an array (and, for
  the client, not \<open>undefined\<close>, which is the empty list), a capacity that is not of type
  number or is below 1.
\<close>

lemma server_invalid_inputs:
  assumes "cand = None \<or> \<not> typeof_number (sd_groupOf (the cand)) \<or> occ = None
           \<or> \<not> typeof_number cap \<or> (\<exists>c. cap = JNumber (Num c) \<and> c < 1)"
  shows "violation (checkPairingRuleViolation_server cand occ cap)
         \<and> (\<exists>r. reason (checkPairingRuleViolation_server cand occ cap) = Some r \<and> r \<noteq> [])"
  using assms
  by (cases cap; cases occ)
     (auto simp: checkPairingRuleViolation_server_def Let_def split: jsval.splits)

lemma client_invalid_inputs:
  assumes "cand = None \<or> \<not> typeof_number (groupOf (the cand)) \<or> occ = None
           \<or> \<not> typeof_number cap \<or> (\<exists>c. cap = JNumber (Num c) \<and> c < 1)"
  shows "violation (checkPairingRuleViolation_client cand occ cap)
         \<and> (\<exists>r. reason (checkPairingRuleViolation_client cand occ cap) = Some r \<and> r \<noteq> [])"
  using assms
  by (cases cap; cases occ)
     (auto simp: checkPairingRuleViolation_client_def Let_def split: jsval.splits)

text \<open>
  C9. Every invalid input to the pairing checker, among them a capacity that is not a
  number at least 1, gives a violation with a reason. The capacity guard is
  \<open>typeof capacity !== 'number' || capacity < 1\<close>, which \<open>NaN\<close> passes; the capacity
  comparison that follows is false as well, so a \<open>NaN\<close> capacity admits the candidate,
  in both checkers.
\<close>

theorem C9_nan_capacity_is_accepted:
  "violation (checkPairingRuleViolation_client
       (Some (rosterRow 1 ''G'' (JNumber (Num 3)) Null 1)) (Some []) (JNumber NaN)) = False
   \<and> violation (checkPairingRuleViolation_server
       (Some (details 1 (JNumber (Num 3)) None)) (Some []) (JNumber NaN)) = False"
  by code_simp

section \<open>The candidate filter and the missing date\<close>

text \<open>
  C3. With a sub-group established by the slot's occupants, the candidate filter's gate
  lets every candidate without sub-group through. The gate of the server's filter is
  \<open>candDetails.subGroup !== targetSubGroup\<close>: with sub-group A established it excludes a
  candidate without sub-group, whom the filter admits when nothing is established and whom
  the client's checker admits next to an occupant of sub-group A.
\<close>

theorem C3_gate_excludes_null_sub_group:
  "slotFilter (mondaySlot 3 1 [1] (Val ''2024-03-04'')) (Some ''A'') []
       (details 2 (JNumber (Num 3)) None) = False
   \<and> slotFilter (mondaySlot 3 1 [1] (Val ''2024-03-04'')) None []
       (details 2 (JNumber (Num 3)) None) = True
   \<and> candidatesForSlot
       [rosterRow 1 ''Ann'' (JNumber (Num 3)) (Val ''A'') 0, rosterRow 2 ''Bob'' (JNumber (Num 3)) Null 5]
       [] (mondaySlot 3 1 [1] (Val ''2024-03-04'')) = []
   \<and> violation (checkPairingRuleViolation_client
       (Some (rosterRow 2 ''Bob'' (JNumber (Num 3)) Null 5))
       (Some [Some (rosterRow 1 ''Ann'' (JNumber (Num 3)) (Val ''A'') 0)]) (JNumber (Num 3))) = False"
  by code_simp

text \<open>
  C8. A slot without date is refused at the call boundary. The server function has no
  such check: \<open>isStudentBlocked\<close> answers "not blocked" for a missing date, and the slot
  gets its recommendation on a public holiday, which blocks everybody when the date is there.
\<close>

theorem C8_missing_date_skips_block_checks:
  "isStudentBlocked_server (Some (details 2 (JNumber (Num 3)) None)) Undefined 7
       (Some [holiday ''2024-03-04'']) = False
   \<and> isStudentBlocked_server (Some (details 2 (JNumber (Num 3)) None)) Null 7
       (Some [holiday ''2024-03-04'']) = False
   \<and> map_option (\<lambda>r. map student_id (recommended_group r))
       (recommendForSlot [rosterRow 2 ''Bob'' (JNumber (Num 3)) Null 5] [holiday ''2024-03-04'']
          (mondaySlot 3 1 [] Undefined)) = Some [2]
   \<and> map_option (\<lambda>r. map student_id (recommended_group r))
       (recommendForSlot [rosterRow 2 ''Bob'' (JNumber (Num 3)) Null 5] [holiday ''2024-03-04'']
          (mondaySlot 3 1 [] (Val ''2024-03-04''))) = Some []"
  by code_simp

section \<open>The block model\<close>

lemma blockLoop_Cons:
  "blockLoop cls d c (b # bs) = (blockLoop cls d c [b] \<or> blockLoop cls d c bs)"
  by (auto split: option.splits)

text \<open>The loop with its early returns asks whether some block of the list blocks alone.\<close>

lemma blockLoop_list_ex: "blockLoop cls d c bs = list_ex (\<lambda>b. blockLoop cls d c [b]) bs"
proof (induction bs)
  case Nil
  show ?case by simp
next
  case (Cons b bs)
  have "blockLoop cls d c (b # bs) = (blockLoop cls d c [b] \<or> blockLoop cls d c bs)"
    by (rule blockLoop_Cons)
  with Cons show ?case by simp
qed

lemma startsWith_nonempty: "startsWith cn ident \<Longrightarrow> ident \<noteq> [] \<Longrightarrow> cn \<noteq> []"
  by (auto simp: startsWith_def)

lemma blockLoop_year_level:
  "blockLoop cls d c [b\<lparr>block_type := ''Year Level Absence''\<rparr>] =
     (block_date b = d \<and> (\<exists>ident cn. block_identifier b = Some ident \<and> ident \<noteq> []
         \<and> cls = Val cn \<and> startsWith cn ident))"
  by (cases cls; cases "block_identifier b") (auto dest: startsWith_nonempty)

lemma isStudentBlocked_server_list_ex:
  "isStudentBlocked_server (Some sd) date coachId (Some bs) =
     list_ex (\<lambda>b. isStudentBlocked_server (Some sd) date coachId (Some [b])) bs"
proof (cases "or_null date")
  case None
  then show ?thesis by (simp add: isStudentBlocked_server_def list_ex_iff)
next
  case (Some d)
  then show ?thesis
    using blockLoop_list_ex[of "sd_class_name sd" d coachId bs]
    by (simp add: isStudentBlocked_server_def)
qed

lemma isStudentBlocked_client_list_ex:
  "isStudentBlocked_client (Some s) date coachId (Some bs) =
     list_ex (\<lambda>b. isStudentBlocked_client (Some s) date coachId (Some [b])) bs"
proof (cases "or_null date")
  case None
  then show ?thesis by (simp add: isStudentBlocked_client_def list_ex_iff)
next
  case (Some d)
  then show ?thesis
    using blockLoop_list_ex[of "class_name s" d coachId bs]
    by (simp add: isStudentBlocked_client_def)
qed

lemma isStudentBlocked_server_year_level:
  "isStudentBlocked_server (Some sd) date coachId (Some [b\<lparr>block_type := ''Year Level Absence''\<rparr>]) =
     (\<exists>d ident cn. date = Val d \<and> d \<noteq> [] \<and> block_date b = d \<and> block_identifier b = Some ident
         \<and> ident \<noteq> [] \<and> sd_class_name sd = Val cn \<and> startsWith cn ident)"
proof (cases date)
  case (Val d)
  show ?thesis
  proof (cases "d = []")
    case True
    with Val show ?thesis by (simp add: isStudentBlocked_server_def)
  next
    case False
    with Val show ?thesis
      using blockLoop_year_level[of "sd_class_name sd" d coachId b]
      by (simp add: isStudentBlocked_server_def)
  qed
qed (simp_all add: isStudentBlocked_server_def)

lemma isStudentBlocked_client_year_level:
  "isStudentBlocked_client (Some s) date coachId (Some [b\<lparr>block_type := ''Year Level Absence''\<rparr>]) =
     (\<exists>d ident cn. date = Val d \<and> d \<noteq> [] \<and> block_date b = d \<and> block_identifier b = Some ident
         \<and> ident \<noteq> [] \<and> class_name s = Val cn \<and> startsWith cn ident)"
proof (cases date)
  case (Val d)
  show ?thesis
  proof (cases "d = []")
    case True
    with Val show ?thesis by (simp add: isStudentBlocked_client_def)
  next
    case False
    with Val show ?thesis
      using blockLoop_year_level[of "class_name s" d coachId b]
      by (simp add: isStudentBlocked_client_def)
  qed
qed (simp_all add: isStudentBlocked_client_def)

lemma year7_scenario:
  "isStudentBlocked_server (Some (details 1 (JNumber (Num 1)) None)) (Val ''2024-03-04'') 7
      (Some [\<lparr>block_date = ''2024-03-04'', block_type = ''Year Level Absence'',
              block_identifier = Some ''Year 7''\<rparr>])
   \<and> \<not> isStudentBlocked_server (Some ((details 1 (JNumber (Num 1)) None)\<lparr>sd_class_name := Val ''Year 8A''\<rparr>))
        (Val ''2024-03-04'') 7
        (Some [\<lparr>block_date = ''2024-03-04'', block_type = ''Year Level Absence'',
                block_identifier = Some ''Year 7''\<rparr>])"
  by code_simp

text \<open>
  C5, as the code has it. The block model asks whether some block of the list blocks the
  student alone, and a Year Level Absence block blocks iff the target date is a non-empty
  string equal to the block's date, the block's identifier is a non-empty string and the
  student's class name is a string that starts with it; so in the server function, so in
  the client module. An identifier "Year 7" blocks class "Year 7A" and not class "Year 8A".
\<close>

theorem C5_year_level_absence:
  "isStudentBlocked_server (Some sd) date coachId (Some bs) =
      list_ex (\<lambda>b. isStudentBlocked_server (Some sd) date coachId (Some [b])) bs
   \<and> isStudentBlocked_server (Some sd) date coachId (Some [b\<lparr>block_type := ''Year Level Absence''\<rparr>]) =
      (\<exists>d ident cn. date = Val d \<and> d \<noteq> [] \<and> block_date b = d \<and> block_identifier b = Some ident
          \<and> ident \<noteq> [] \<and> sd_class_name sd = Val cn \<and> startsWith cn ident)
   \<and> isStudentBlocked_client (Some s) date coachId (Some bs) =
      list_ex (\<lambda>b. isStudentBlocked_client (Some s) date coachId (Some [b])) bs
   \<and> isStudentBlocked_client (Some s) date coachId (Some [b\<lparr>block_type := ''Year Level Absence''\<rparr>]) =
      (\<exists>d ident cn. date = Val d \<and> d \<noteq> [] \<and> block_date b = d \<and> block_identifier b = Some ident
          \<and> ident \<noteq> [] \<and> class_name s = Val cn \<and> startsWith cn ident)
   \<and> isStudentBlocked_server (Some (details 1 (JNumber (Num 1)) None)) (Val ''2024-03-04'') 7
        (Some [\<lparr>block_date = ''2024-03-04'', block_type = ''Year Level Absence'',
                block_identifier = Some ''Year 7''\<rparr>])
   \<and> \<not> isStudentBlocked_server (Some ((details 1 (JNumber (Num 1)) None)\<lparr>sd_class_name := Val ''Year 8A''\<rparr>))
        (Val ''2024-03-04'') 7
        (Some [\<lparr>block_date = ''2024-03-04'', block_type = ''Year Level Absence'',
                block_identifier = Some ''Year 7''\<rparr>])"
  using isStudentBlocked_server_list_ex[of sd date coachId bs]
    isStudentBlocked_server_year_level[of sd date coachId b]
    isStudentBlocked_client_list_ex[of s date coachId bs]
    isStudentBlocked_client_year_level[of s date coachId b]
    year7_scenario
  by blast

text \<open>
  The claim as it is written fails for an empty identifier: it is not null and every class
  name starts with it, and the code, which tests \<open>block.identifier &&\<close>, does not block.
\<close>

theorem C5_empty_identifier_counterexample:
  "isStudentBlocked_server (Some (details 1 (JNumber (Num 1)) None)) (Val ''2024-03-04'') 7
      (Some [\<lparr>block_date = ''2024-03-04'', block_type = ''Year Level Absence'',
              block_identifier = Some []\<rparr>]) = False
   \<and> isStudentBlocked_client (Some (rosterRow 1 ''Ann'' (JNumber (Num 1)) Null 1)) (Val ''2024-03-04'') 7
      (Some [\<lparr>block_date = ''2024-03-04'', block_type = ''Year Level Absence'',
              block_identifier = Some []\<rparr>]) = False
   \<and> Some [] \<noteq> (None :: string option)
   \<and> startsWith ''Year 7A'' []
   \<and> sd_class_name (details 1 (JNumber (Num 1)) None) = Val ''Year 7A''
   \<and> class_name (rosterRow 1 ''Ann'' (JNumber (Num 1)) Null 1) = Val ''Year 7A''"
  by code_simp

section \<open>The slot recommender\<close>

text \<open>What a passed pairing check says about the occupants and the candidate together.\<close>

lemma check_pass_capacity:
  assumes "\<not> violation (checkPairingRuleViolation_server (Some c) (Some (map Some occ)) (JNumber (Num cap)))"
  shows "int (length occ) + 1 \<le> cap"
  using assms
  by (auto simp: checkPairingRuleViolation_server_def Let_def split: if_splits)

lemma check_pass_solo:
  assumes "\<not> violation (checkPairingRuleViolation_server (Some c) (Some (map Some occ)) (JNumber (Num cap)))"
    and "list_ex (\<lambda>d. sd_groupOf d = JNumber (Num 1)) (occ @ [c])"
  shows "occ = []"
proof -
  from assms(2) obtain d where d: "d \<in> set (occ @ [c])" "sd_groupOf d = JNumber (Num 1)"
    by (auto simp: list_ex_iff)
  then have "Some d \<in> set (map Some occ @ [Some c])" "num_eq (groupSize (Some d)) (Num 1)"
    by (auto simp: groupSize_def)
  then have "filter (\<lambda>d. num_eq (groupSize d) (Num 1)) (map Some occ @ [Some c]) \<noteq> []"
    unfolding filter_empty_conv by blast
  with assms(1) show ?thesis
    by (auto simp: checkPairingRuleViolation_server_def Let_def
          simp del: filter_append filter.simps split: if_splits)
qed

lemma check_pass_paired:
  assumes "\<not> violation (checkPairingRuleViolation_server (Some c) (Some (map Some occ)) (JNumber (Num cap)))"
    and "list_ex (\<lambda>d. sd_groupOf d = JNumber (Num 2)) (occ @ [c])"
  shows "length occ \<le> 1"
proof -
  from assms(2) obtain d where d: "d \<in> set (occ @ [c])" "sd_groupOf d = JNumber (Num 2)"
    by (auto simp: list_ex_iff)
  then have "Some d \<in> set (map Some occ @ [Some c])"
      "\<not> num_eq (groupSize (Some d)) (Num 1) \<and> num_eq (groupSize (Some d)) (Num 2)"
    by (auto simp: groupSize_def)
  then have "filter (\<lambda>d. \<not> num_eq (groupSize d) (Num 1) \<and> num_eq (groupSize d) (Num 2)) (map Some occ @ [Some c]) \<noteq> []"
    unfolding filter_empty_conv by blast
  with assms(1) show ?thesis
    by (auto simp: checkPairingRuleViolation_server_def Let_def
          simp del: filter_append filter.simps split: if_splits)
qed

lemma greedy_length:
  "int (length (greedy n cap cs acc occ csg)) \<le> max n (int (length acc))"
proof (induction cs arbitrary: acc occ csg)
  case Nil
  show ?case by simp
next
  case (Cons c cs)
  show ?case
    using Cons.IH[of acc occ csg]
      Cons.IH[of "acc @ [c]" "occ @ [c]" "if length (acc @ [c]) = 1 \<and> csg = None \<and> sd_subGroup c \<noteq> None then sd_subGroup c else csg"]
    by (auto simp del: length_append split: if_splits) (simp_all)
qed

lemma greedy_last_check:
  "greedy n cap cs acc (E @ acc) csg = acc \<or>
   (\<exists>pre c. greedy n cap cs acc (E @ acc) csg = pre @ [c] \<and>
      \<not> violation (checkPairingRuleViolation_server (Some c) (Some (map Some (E @ pre))) (JNumber (Num cap))))"
proof (induction cs arbitrary: acc csg)
  case Nil
  show ?case by simp
next
  case (Cons c cs)
  let ?csg' = "if length (acc @ [c]) = 1 \<and> csg = None \<and> sd_subGroup c \<noteq> None then sd_subGroup c else csg"
  show ?case
  proof (cases "int (length acc) \<ge> n")
    case True
    then show ?thesis by simp
  next
    case stop: False
    show ?thesis
    proof (cases "csg \<noteq> None \<and> sd_subGroup c \<noteq> csg")
      case True
      with stop Cons.IH[of acc csg] show ?thesis by simp
    next
      case gate: False
      show ?thesis
      proof (cases "violation (checkPairingRuleViolation_server (Some c) (Some (map Some (E @ acc))) (JNumber (Num cap)))")
        case True
        with stop gate Cons.IH[of acc csg] show ?thesis by simp
      next
        case False
        have eq: "greedy n cap (c # cs) acc (E @ acc) csg = greedy n cap cs (acc @ [c]) (E @ (acc @ [c])) ?csg'"
          using stop gate False by auto
        from Cons.IH[of "acc @ [c]" ?csg'] False show ?thesis
          unfolding eq by blast
      qed
    qed
  qed
qed

lemma recommendForSlot_Some:
  assumes "recommendForSlot allStudentsData allBlocks slot = Some r"
  shows "capacity slot - current_occupants slot > 0"
    and "recommended_group r = map toMember
           (greedy (capacity slot - current_occupants slot) (capacity slot)
              (sortByOwed (candidatesForSlot allStudentsData allBlocks slot)) []
              (existingStudentsDetails allStudentsData slot)
              (targetSubGroup (existingStudentsDetails allStudentsData slot)))"
  using assms
  by (auto simp: recommendForSlot_def Let_def SlotInfo.extend_def ResultSlot.fields_def split: if_splits)

text \<open>
  What the server's recommender does guarantee. It counts against the stored capacity:
  whenever it emits a slot, the current occupants and the fill-ins together are at most the
  stored capacity.
\<close>

lemma recommender_stored_capacity:
  assumes "recommendForSlot allStudentsData allBlocks slot = Some r"
  shows "current_occupants slot + int (length (recommended_group r)) \<le> capacity slot"
proof -
  let ?n = "capacity slot - current_occupants slot"
  let ?acc = "greedy ?n (capacity slot) (sortByOwed (candidatesForSlot allStudentsData allBlocks slot)) []
                (existingStudentsDetails allStudentsData slot)
                (targetSubGroup (existingStudentsDetails allStudentsData slot))"
  from recommendForSlot_Some[OF assms] have pos: "?n > 0" and rg: "recommended_group r = map toMember ?acc"
    by simp_all
  have "int (length ?acc) \<le> max ?n (int (length ([] :: StudentDetails list)))"
    by (rule greedy_length)
  with pos rg show ?thesis by simp
qed

text \<open>
  It checks the pairing rules against the slot's original students, those of them that
  the roster has: once one of them is solo it recommends nobody, and once one of them is
  paired the original students and the fill-ins together are at most two.
\<close>

lemma recommender_original_students:
  assumes "recommendForSlot allStudentsData allBlocks slot = Some r"
  shows "list_ex (\<lambda>d. sd_groupOf d = JNumber (Num 1)) (existingStudentsDetails allStudentsData slot)
           \<Longrightarrow> recommended_group r = []"
    and "list_ex (\<lambda>d. sd_groupOf d = JNumber (Num 2)) (existingStudentsDetails allStudentsData slot)
           \<Longrightarrow> recommended_group r \<noteq> []
           \<Longrightarrow> length (existingStudentsDetails allStudentsData slot) + length (recommended_group r) \<le> 2"
proof -
  let ?E = "existingStudentsDetails allStudentsData slot"
  let ?n = "capacity slot - current_occupants slot"
  let ?cap = "capacity slot"
  let ?cs = "sortByOwed (candidatesForSlot allStudentsData allBlocks slot)"
  let ?acc = "greedy ?n ?cap ?cs [] ?E (targetSubGroup ?E)"
  from recommendForSlot_Some[OF assms] have rg: "recommended_group r = map toMember ?acc"
    by simp
  from greedy_last_check[of ?n ?cap ?cs "[]" ?E "targetSubGroup ?E"]
  have last: "?acc = [] \<or> (\<exists>pre c. ?acc = pre @ [c] \<and>
      \<not> violation (checkPairingRuleViolation_server (Some c) (Some (map Some (?E @ pre))) (JNumber (Num ?cap))))"
    by simp
  show "recommended_group r = []" if s: "list_ex (\<lambda>d. sd_groupOf d = JNumber (Num 1)) ?E"
    using last
  proof
    assume "?acc = []" with rg show ?thesis by simp
  next
    assume "\<exists>pre c. ?acc = pre @ [c] \<and>
      \<not> violation (checkPairingRuleViolation_server (Some c) (Some (map Some (?E @ pre))) (JNumber (Num ?cap)))"
    then obtain pre c where acc: "?acc = pre @ [c]"
      and ok: "\<not> violation (checkPairingRuleViolation_server (Some c) (Some (map Some (?E @ pre))) (JNumber (Num ?cap)))"
      by blast
    from s have "list_ex (\<lambda>d. sd_groupOf d = JNumber (Num 1)) ((?E @ pre) @ [c])" and "?E \<noteq> []"
      by (auto simp: list_ex_iff)
    with check_pass_solo[OF ok] show ?thesis by simp
  qed
  show "length ?E + length (recommended_group r) \<le> 2"
    if p: "list_ex (\<lambda>d. sd_groupOf d = JNumber (Num 2)) ?E" and ne: "recommended_group r \<noteq> []"
    using last
  proof
    assume "?acc = []" with rg ne show ?thesis by simp
  next
    assume "\<exists>pre c. ?acc = pre @ [c] \<and>
      \<not> violation (checkPairingRuleViolation_server (Some c) (Some (map Some (?E @ pre))) (JNumber (Num ?cap)))"
    then obtain pre c where acc: "?acc = pre @ [c]"
      and ok: "\<not> violation (checkPairingRuleViolation_server (Some c) (Some (map Some (?E @ pre))) (JNumber (Num ?cap)))"
      by blast
    from p have "list_ex (\<lambda>d. sd_groupOf d = JNumber (Num 2)) ((?E @ pre) @ [c])"
      by (auto simp: list_ex_iff)
    with check_pass_paired[OF ok] have "length ?E + length pre \<le> 1" by simp
    with acc rg show ?thesis by simp
  qed
qed

text \<open>
  The scenario of the claim: no current occupant, stored capacity 3, an original student
  who is solo, two solo candidates. The view's effective capacity is 1 and the recommender
  emits the slot with no fill-in.
\<close>

lemma solo_lock_scenario:
  "map_option (\<lambda>r. map student_id (recommended_group r))
      (recommendForSlot
         [rosterRow 1 ''Sol'' (JNumber (Num 1)) Null 0, rosterRow 2 ''Tim'' (JNumber (Num 1)) Null 4,
          rosterRow 3 ''Uma'' (JNumber (Num 1)) Null 2] []
         (mondaySlot 3 0 [1] (Val ''2024-03-04''))) = Some []"
  "effectiveCapacity (Num 3) [1]
      (Some [rosterRow 1 ''Sol'' (JNumber (Num 1)) Null 0, rosterRow 2 ''Tim'' (JNumber (Num 1)) Null 4,
             rosterRow 3 ''Uma'' (JNumber (Num 1)) Null 2]) 0 = 1"
  by code_simp+

text \<open>
  The view looks every original id up with the client's lookup, which answers an id that
  the roster does not have with a default record of group size 1; the server's lookup
  drops such an id. For a slot whose one original student, 99, is not in the roster, with
  stored capacity 3 and no occupant, the view's effective capacity is 1 and the
  recommender fills the slot with the three group students.
\<close>

lemma unknown_original_student:
  "map_option (\<lambda>r. map student_id (recommended_group r))
      (recommendForSlot groupRoster [] (mondaySlot 3 0 [99] (Val ''2024-03-04''))) = Some [4, 5, 6]"
  "effectiveCapacity (Num 3) [99] (Some groupRoster) 0 = 1"
  by code_simp+

text \<open>
  C1 fails in the code. The effective capacity, the view's \<open>createSlotElement\<close> computes;
  the server's recommender takes \<open>capacity - current_occupants\<close> of the stored capacity
  as the number of fill-ins it needs, and checks each candidate against the slot's
  original students, not against the students who are in the slot. A slot with stored
  capacity 3 holds two paired students, Pat (its original student) and Ria (a fill-in):
  the recommender adds Quin, a third paired student, where the effective capacity is 2.
  Asked about Quin joining Pat and Ria, the client's checker and the server's own both
  refuse.
\<close>

theorem C1_recommends_beyond_effective_capacity:
  "(case recommendForSlot pairedRoster [] (mondaySlot 3 2 [1] (Val ''2024-03-04'')) of
      None \<Rightarrow> False
    | Some r \<Rightarrow>
        map student_id (recommended_group r) = [3]
        \<and> effectiveCapacity (Num (capacity r)) [1] (Some pairedRoster) 2 = 2
        \<and> \<not> (current_occupants r + int (length (recommended_group r))
              \<le> effectiveCapacity (Num (capacity r)) [1] (Some pairedRoster) 2))
   \<and> checkPairingRuleViolation_client (Some (pairedRoster ! 2))
        (Some [Some (pairedRoster ! 0), Some (pairedRoster ! 1)]) (JNumber (Num 3))
       = \<lparr>violation = True, reason = Some ''Cannot exceed 2 students in a Paired slot.''\<rparr>
   \<and> checkPairingRuleViolation_server (getStudentDetails_server 3 pairedRoster)
        (Some [getStudentDetails_server 1 pairedRoster, getStudentDetails_server 2 pairedRoster])
        (JNumber (Num 3))
       = \<lparr>violation = True, reason = Some ''Paired lessons cannot exceed 2 students''\<rparr>"
  by code_simp

text \<open>
  The sort keeps the input order among candidates that owe the same number of lessons,
  and it rearranges the list without adding or dropping a candidate.
\<close>

lemma insertByOwed_filter:
  "filter (\<lambda>y. sd_lessons_owed y = k) (insertByOwed x ys) = filter (\<lambda>y. sd_lessons_owed y = k) (x # ys)"
proof (induction ys)
  case Nil
  show ?case by simp
next
  case (Cons y ys)
  show ?case
  proof (cases "num_gt (sd_lessons_owed y) (sd_lessons_owed x)")
    case True
    then have "sd_lessons_owed y \<noteq> sd_lessons_owed x"
      by (cases "sd_lessons_owed y"; cases "sd_lessons_owed x") auto
    with True Cons show ?thesis by auto
  next
    case False
    then show ?thesis by simp
  qed
qed

lemma sortByOwed_stable:
  "filter (\<lambda>y. sd_lessons_owed y = k) (sortByOwed xs) = filter (\<lambda>y. sd_lessons_owed y = k) xs"
  by (induction xs) (simp_all add: sortByOwed_def insertByOwed_filter)

lemma set_insertByOwed: "set (insertByOwed x ys) = insert x (set ys)"
  by (induction ys) auto

lemma set_sortByOwed: "set (sortByOwed xs) = set xs"
  by (induction xs) (simp_all add: sortByOwed_def set_insertByOwed)

lemma length_insertByOwed: "length (insertByOwed x ys) = Suc (length ys)"
  by (induction ys) auto

lemma length_sortByOwed: "length (sortByOwed xs) = length xs"
  by (induction xs) (simp_all add: sortByOwed_def length_insertByOwed)

text \<open>The loop accepts candidates in the order of its input list.\<close>

lemma greedy_subseq:
  "\<exists>ys. greedy n cap cs acc occ csg = acc @ ys \<and> subseq ys cs"
proof (induction cs arbitrary: acc occ csg)
  case Nil
  show ?case by simp
next
  case (Cons c cs)
  let ?csg' = "if length (acc @ [c]) = 1 \<and> csg = None \<and> sd_subGroup c \<noteq> None then sd_subGroup c else csg"
  from Cons.IH[of acc occ csg] obtain ys where
    skip: "greedy n cap cs acc occ csg = acc @ ys" "subseq ys cs" by blast
  from Cons.IH[of "acc @ [c]" "occ @ [c]" ?csg'] obtain zs where
    take: "greedy n cap cs (acc @ [c]) (occ @ [c]) ?csg' = (acc @ [c]) @ zs" "subseq zs cs" by blast
  have "greedy n cap (c # cs) acc occ csg = acc
      \<or> greedy n cap (c # cs) acc occ csg = greedy n cap cs acc occ csg
      \<or> greedy n cap (c # cs) acc occ csg = greedy n cap cs (acc @ [c]) (occ @ [c]) ?csg'"
    by auto
  then show ?case
  proof (elim disjE)
    assume "greedy n cap (c # cs) acc occ csg = acc"
    then show ?thesis by (intro exI[of _ "[]"]) (simp del: greedy.simps)
  next
    assume "greedy n cap (c # cs) acc occ csg = greedy n cap cs acc occ csg"
    with skip show ?thesis by (intro exI[of _ ys]) (auto simp del: greedy.simps)
  next
    assume "greedy n cap (c # cs) acc occ csg = greedy n cap cs (acc @ [c]) (occ @ [c]) ?csg'"
    with take show ?thesis by (intro exI[of _ "c # zs"]) (simp del: greedy.simps)
  qed
qed

lemma sort_5531:
  assumes "map sd_lessons_owed [A, B, C, D] = [Num 5, Num 5, Num 3, Num 1]"
  shows "sortByOwed [A, B, C, D] = [A, B, C, D]"
  using assms by (simp add: sortByOwed_def)

lemma not_subseq_swap:
  assumes "A \<noteq> B" and "A \<noteq> C" and "A \<noteq> D"
  shows "\<not> subseq [B, A] [A, B, C, D]"
  using assms by simp

lemma greedy_two_accepted:
  assumes gateA: "csg = None \<or> sd_subGroup A = csg"
    and okA: "\<not> violation (checkPairingRuleViolation_server (Some A) (Some (map Some E)) (JNumber (Num cap)))"
    and gateB: "sd_subGroup A = None \<or> sd_subGroup B = sd_subGroup A"
    and okB: "\<not> violation (checkPairingRuleViolation_server (Some B) (Some (map Some (E @ [A]))) (JNumber (Num cap)))"
  shows "greedy 2 cap (A # B # rest) [] E csg = [A, B]"
proof -
  let ?csg1 = "if length ([] @ [A]) = 1 \<and> csg = None \<and> sd_subGroup A \<noteq> None then sd_subGroup A else csg"
  have csg1: "?csg1 = sd_subGroup A" using gateA by auto
  have "greedy 2 cap (A # B # rest) [] E csg = greedy 2 cap (B # rest) ([] @ [A]) (E @ [A]) ?csg1"
    using gateA okA by (subst greedy.simps(2)) (auto simp del: greedy.simps)
  also have "\<dots> = greedy 2 cap (B # rest) [A] (E @ [A]) (sd_subGroup A)"
    unfolding csg1 by simp
  also have "\<dots> = greedy 2 cap rest ([A] @ [B]) ((E @ [A]) @ [B]) (sd_subGroup A)"
    using gateB okB by (subst greedy.simps(2)) (auto simp del: greedy.simps)
  also have "\<dots> = [A, B]" by (cases rest) simp_all
  finally show ?thesis .
qed

text \<open>
  C4, as the code has it. For candidates A, B, C, D that owe 5, 5, 3 and 1 lessons the sort
  leaves the order A, B, C, D (it is stable), and the loop accepts in that order, so the
  recommendation is never [B, A]. With two fill-ins needed it is [A, B] when the loop
  admits A and then B: neither is skipped for its sub-group and each passes the pairing
  check against the occupants before it.
\<close>

theorem C4_ranking:
  assumes "map sd_lessons_owed [A, B, C, D] = [Num 5, Num 5, Num 3, Num 1]"
  shows "sortByOwed [A, B, C, D] = [A, B, C, D]
    \<and> (A \<noteq> B \<longrightarrow> greedy 2 cap (sortByOwed [A, B, C, D]) [] E csg \<noteq> [B, A])
    \<and> ((csg = None \<or> sd_subGroup A = csg)
        \<and> \<not> violation (checkPairingRuleViolation_server (Some A) (Some (map Some E)) (JNumber (Num cap)))
        \<and> (sd_subGroup A = None \<or> sd_subGroup B = sd_subGroup A)
        \<and> \<not> violation (checkPairingRuleViolation_server (Some B) (Some (map Some (E @ [A]))) (JNumber (Num cap)))
        \<longrightarrow> greedy 2 cap (sortByOwed [A, B, C, D]) [] E csg = [A, B])"
proof (intro conjI impI)
  show s: "sortByOwed [A, B, C, D] = [A, B, C, D]" using assms by (rule sort_5531)
  show "greedy 2 cap (sortByOwed [A, B, C, D]) [] E csg \<noteq> [B, A]" if ne: "A \<noteq> B"
  proof
    assume eq: "greedy 2 cap (sortByOwed [A, B, C, D]) [] E csg = [B, A]"
    from greedy_subseq[of 2 cap "[A, B, C, D]" "[]" E csg] obtain ys where
      "greedy 2 cap [A, B, C, D] [] E csg = [] @ ys" "subseq ys [A, B, C, D]" by blast
    with eq s have "subseq [B, A] [A, B, C, D]" by (simp del: greedy.simps)
    moreover have "A \<noteq> C" "A \<noteq> D" using assms by auto
    ultimately show False using ne not_subseq_swap[of A B C D] by simp
  qed
  show "greedy 2 cap (sortByOwed [A, B, C, D]) [] E csg = [A, B]"
    if h: "(csg = None \<or> sd_subGroup A = csg)
        \<and> \<not> violation (checkPairingRuleViolation_server (Some A) (Some (map Some E)) (JNumber (Num cap)))
        \<and> (sd_subGroup A = None \<or> sd_subGroup B = sd_subGroup A)
        \<and> \<not> violation (checkPairingRuleViolation_server (Some B) (Some (map Some (E @ [A]))) (JNumber (Num cap)))"
  proof -
    from h have a: "csg = None \<or> sd_subGroup A = csg"
      and b: "\<not> violation (checkPairingRuleViolation_server (Some A) (Some (map Some E)) (JNumber (Num cap)))"
      and c: "sd_subGroup A = None \<or> sd_subGroup B = sd_subGroup A"
      and d: "\<not> violation (checkPairingRuleViolation_server (Some B) (Some (map Some (E @ [A]))) (JNumber (Num cap)))"
      by simp_all
    show ?thesis unfolding s by (rule greedy_two_accepted[OF a b c d])
  qed
qed

theorem C4_ranking_witness:
  "greedy 2 3
     (sortByOwed [(details 1 (JNumber (Num 3)) None)\<lparr>sd_lessons_owed := Num 5\<rparr>,
                  (details 2 (JNumber (Num 3)) None)\<lparr>sd_lessons_owed := Num 5\<rparr>,
                  (details 3 (JNumber (Num 3)) None)\<lparr>sd_lessons_owed := Num 3\<rparr>,
                  (details 4 (JNumber (Num 3)) None)\<lparr>sd_lessons_owed := Num 1\<rparr>]) [] [] None
   = [(details 1 (JNumber (Num 3)) None)\<lparr>sd_lessons_owed := Num 5\<rparr>,
      (details 2 (JNumber (Num 3)) None)\<lparr>sd_lessons_owed := Num 5\<rparr>]"
proof -
  let ?A = "(details 1 (JNumber (Num 3)) None)\<lparr>sd_lessons_owed := Num 5\<rparr>"
  let ?B = "(details 2 (JNumber (Num 3)) None)\<lparr>sd_lessons_owed := Num 5\<rparr>"
  let ?C = "(details 3 (JNumber (Num 3)) None)\<lparr>sd_lessons_owed := Num 3\<rparr>"
  let ?D = "(details 4 (JNumber (Num 3)) None)\<lparr>sd_lessons_owed := Num 1\<rparr>"
  have owed: "map sd_lessons_owed [?A, ?B, ?C, ?D] = [Num 5, Num 5, Num 3, Num 1]"
    by simp
  have okA: "\<not> violation (checkPairingRuleViolation_server (Some ?A) (Some (map Some [])) (JNumber (Num 3)))"
    by code_simp
  have okB: "\<not> violation (checkPairingRuleViolation_server (Some ?B) (Some (map Some ([] @ [?A]))) (JNumber (Num 3)))"
    by code_simp
  have sg: "sd_subGroup ?A = None" by (simp add: details_def)
  from C4_ranking[OF owed, where cap = 3 and E = "[]" and csg = None] okA okB sg
  show ?thesis by blast
qed

text \<open>
  The claim as it is written fails when A and B may not share a slot: two solo candidates
  owe 5 lessons each, two fill-ins are needed, and the recommendation is A alone.
\<close>

theorem C4_solo_pair_counterexample:
  "map sd_lessons_owed (candidatesForSlot
       [rosterRow 1 ''A'' (JNumber (Num 1)) Null 5, rosterRow 2 ''B'' (JNumber (Num 1)) Null 5,
        rosterRow 3 ''C'' (JNumber (Num 3)) Null 3, rosterRow 4 ''D'' (JNumber (Num 3)) Null 1] []
       (mondaySlot 2 0 [] (Val ''2024-03-04''))) = [Num 5, Num 5, Num 3, Num 1]
   \<and> capacity (mondaySlot 2 0 [] (Val ''2024-03-04''))
       - current_occupants (mondaySlot 2 0 [] (Val ''2024-03-04'')) = 2
   \<and> map_option (\<lambda>r. map student_id (recommended_group r))
       (recommendForSlot
          [rosterRow 1 ''A'' (JNumber (Num 1)) Null 5, rosterRow 2 ''B'' (JNumber (Num 1)) Null 5,
           rosterRow 3 ''C'' (JNumber (Num 3)) Null 3, rosterRow 4 ''D'' (JNumber (Num 3)) Null 1] []
          (mondaySlot 2 0 [] (Val ''2024-03-04''))) = Some [1]"
  by code_simp

section \<open>The client's student lookup\<close>

lemma normalise_idem: "normalise (normalise s) = normalise s"
  by (cases "groupOf s"; cases "or_null (availability s)")
     (auto simp: normalise_def split: jsnum.splits)

lemma normalise_id: "id (normalise s) = id s"
  by (simp add: normalise_def)

lemma find_index_of_Some:
  "find_index_of P xs = Some i \<Longrightarrow> i < length xs \<and> P (xs ! i)"
proof (induction xs arbitrary: i)
  case Nil
  then show ?case by simp
next
  case (Cons x xs)
  then show ?case by (cases "P x") (auto simp: nth_Cons')
qed

lemma find_index_of_first:
  "find_index_of P xs = Some i \<Longrightarrow> list_all (\<lambda>x. \<not> P x) (take i xs)"
proof (induction xs arbitrary: i)
  case Nil
  then show ?case by simp
next
  case (Cons x xs)
  then show ?case by (cases "P x") auto
qed

lemma find_index_of_cong:
  "map f xs = map f ys \<Longrightarrow> find_index_of (\<lambda>s. f s = k) xs = find_index_of (\<lambda>s. f s = k) ys"
proof (induction xs arbitrary: ys)
  case Nil
  then show ?case by simp
next
  case (Cons x xs)
  then obtain y ys' where "ys = y # ys'" "f x = f y" "map f xs = map f ys'" by auto
  with Cons.IH[of ys'] show ?case by simp
qed

lemma map_id_update:
  "i < length xs \<Longrightarrow> map id (xs[i := normalise (xs ! i)]) = map id xs"
  by (simp add: map_update normalise_id list_update_same_conv)

text \<open>The lookup either leaves the roster as it is or normalises the record it finds.\<close>

lemma getStudentDetails_client_roster:
  "snd (getStudentDetails_client studentId studentsData) = studentsData
   \<or> (\<exists>i k. parseInt_val studentId = Num k \<and> find_index_of (\<lambda>s. id s = k) studentsData = Some i
         \<and> i < length studentsData
         \<and> snd (getStudentDetails_client studentId studentsData)
             = studentsData[i := normalise (studentsData ! i)])"
proof (cases "parseInt_val studentId")
  case NaN
  then show ?thesis by (simp add: getStudentDetails_client_def)
next
  case (Num k)
  show ?thesis
  proof (cases "find_index_of (\<lambda>s. id s = k) studentsData")
    case None
    with Num show ?thesis by (simp add: getStudentDetails_client_def)
  next
    case (Some i)
    with find_index_of_Some[OF Some] Num show ?thesis
      by (auto simp: getStudentDetails_client_def Let_def)
  qed
qed

lemma getStudentDetails_client_idem:
  "snd (getStudentDetails_client studentId (snd (getStudentDetails_client studentId studentsData)))
     = snd (getStudentDetails_client studentId studentsData)"
proof -
  from getStudentDetails_client_roster[of studentId studentsData]
  show ?thesis
  proof
    assume "snd (getStudentDetails_client studentId studentsData) = studentsData"
    then show ?thesis by simp
  next
    assume "\<exists>i k. parseInt_val studentId = Num k \<and> find_index_of (\<lambda>s. id s = k) studentsData = Some i
         \<and> i < length studentsData
         \<and> snd (getStudentDetails_client studentId studentsData)
             = studentsData[i := normalise (studentsData ! i)]"
    then obtain i k where k: "parseInt_val studentId = Num k"
      and i: "find_index_of (\<lambda>s. id s = k) studentsData = Some i" "i < length studentsData"
      and r: "snd (getStudentDetails_client studentId studentsData) = studentsData[i := normalise (studentsData ! i)]"
      by blast
    let ?r = "studentsData[i := normalise (studentsData ! i)]"
    have "map id ?r = map id studentsData" using i(2) by (rule map_id_update)
    then have fi: "find_index_of (\<lambda>s. id s = k) ?r = Some i"
      using find_index_of_cong[of id ?r studentsData k] i(1) by simp
    have ne: "?r \<noteq> []" "studentId \<noteq> JNull" "studentId \<noteq> JUndefined"
      using i(2) k by (auto simp: parseInt_val_def)
    have "snd (getStudentDetails_client studentId ?r) = ?r[i := normalise (?r ! i)]"
      using ne k fi by (simp add: getStudentDetails_client_def Let_def)
    also have "\<dots> = ?r" using i(2) by (simp add: normalise_idem)
    finally show ?thesis unfolding r .
  qed
qed

text \<open>
  C10, as the code has it. The client's \<open>getStudentDetails\<close> keeps the roster's length,
  order and ids and touches at most one record, the first with the id it looks for, which
  it normalises in place (Name from name or null, groupOf 1 unless a valid number,
  sub_group and class_name null and availability_string from availability or null when
  undefined). A roster whose records are normalised is left as it is, and a second lookup
  changes nothing more.
\<close>

theorem C10_lookup_normalises_in_place:
  "(snd (getStudentDetails_client studentId studentsData) = studentsData
    \<or> (\<exists>i<length studentsData.
          parseInt_val studentId = Num (id (studentsData ! i))
          \<and> list_all (\<lambda>s. id s \<noteq> id (studentsData ! i)) (take i studentsData)
          \<and> snd (getStudentDetails_client studentId studentsData)
              = studentsData[i := normalise (studentsData ! i)]))
   \<and> map id (snd (getStudentDetails_client studentId studentsData)) = map id studentsData
   \<and> (list_all (\<lambda>s. normalise s = s) studentsData
        \<longrightarrow> snd (getStudentDetails_client studentId studentsData) = studentsData)
   \<and> snd (getStudentDetails_client studentId (snd (getStudentDetails_client studentId studentsData)))
        = snd (getStudentDetails_client studentId studentsData)"
proof -
  let ?r = "snd (getStudentDetails_client studentId studentsData)"
  have first: "?r = studentsData
      \<or> (\<exists>i<length studentsData.
            parseInt_val studentId = Num (id (studentsData ! i))
            \<and> list_all (\<lambda>s. id s \<noteq> id (studentsData ! i)) (take i studentsData)
            \<and> ?r = studentsData[i := normalise (studentsData ! i)])"
    using getStudentDetails_client_roster[of studentId studentsData]
  proof
    assume "?r = studentsData" then show ?thesis by simp
  next
    assume "\<exists>i k. parseInt_val studentId = Num k \<and> find_index_of (\<lambda>s. id s = k) studentsData = Some i
         \<and> i < length studentsData \<and> ?r = studentsData[i := normalise (studentsData ! i)]"
    then obtain i k where k: "parseInt_val studentId = Num k"
      and f: "find_index_of (\<lambda>s. id s = k) studentsData = Some i"
      and i: "i < length studentsData" "?r = studentsData[i := normalise (studentsData ! i)]"
      by blast
    from find_index_of_Some[OF f] have ki: "id (studentsData ! i) = k" by simp
    from find_index_of_first[OF f] have "list_all (\<lambda>s. id s \<noteq> k) (take i studentsData)" by simp
    with k ki i show ?thesis by blast
  qed
  then have one: "?r = studentsData \<or> (\<exists>i<length studentsData. ?r = studentsData[i := normalise (studentsData ! i)])"
    by blast
  have ids: "map id ?r = map id studentsData"
    using one map_id_update by fastforce
  have same: "?r = studentsData" if "list_all (\<lambda>s. normalise s = s) studentsData"
    using one
  proof
    assume "?r = studentsData" then show ?thesis .
  next
    assume "\<exists>i<length studentsData. ?r = studentsData[i := normalise (studentsData ! i)]"
    then obtain i where i: "i < length studentsData" "?r = studentsData[i := normalise (studentsData ! i)]"
      by blast
    from that i(1) have "normalise (studentsData ! i) = studentsData ! i"
      by (simp add: list_all_length)
    with i(2) show ?thesis by simp
  qed
  from first ids same getStudentDetails_client_idem[of studentId studentsData]
  show ?thesis by blast
qed

theorem C10_lookup_witness:
  "list_all (\<lambda>s. normalise s = s) [rosterRow 1 ''Ann'' (JNumber (Num 3)) Null 1]
   \<and> snd (getStudentDetails_client (JNumber (Num 1)) [rosterRow 1 ''Ann'' (JNumber (Num 3)) Null 1])
       = [rosterRow 1 ''Ann'' (JNumber (Num 3)) Null 1]"
proof -
  have n: "list_all (\<lambda>s. normalise s = s) [rosterRow 1 ''Ann'' (JNumber (Num 3)) Null 1]"
    by (simp add: normalise_def rosterRow_def)
  with C10_lookup_normalises_in_place[of "JNumber (Num 1)" "[rosterRow 1 ''Ann'' (JNumber (Num 3)) Null 1]"]
  show ?thesis by blast
qed

text \<open>
  The claim as it is written fails for a record without \<open>groupOf\<close> and \<open>sub_group\<close>:
  the lookup adds both fields to the record in the roster.
\<close>

theorem C10_lookup_writes_counterexample:
  "map groupOf [rosterRow 1 ''Al'' JUndefined Undefined 1] = [JUndefined]
   \<and> map groupOf (snd (getStudentDetails_client (JNumber (Num 1))
         [rosterRow 1 ''Al'' JUndefined Undefined 1])) = [JNumber (Num 1)]
   \<and> map sub_group [rosterRow 1 ''Al'' JUndefined Undefined 1] = [Undefined]
   \<and> map sub_group (snd (getStudentDetails_client (JNumber (Num 1))
         [rosterRow 1 ''Al'' JUndefined Undefined 1])) = [Null]
   \<and> snd (getStudentDetails_client (JNumber (Num 1)) [rosterRow 1 ''Al'' JUndefined Undefined 1])
       \<noteq> [rosterRow 1 ''Al'' JUndefined Undefined 1]"
  by code_simp

section \<open>The availability model of the client\<close>

lemma split_on_nonempty: "split_on c s \<noteq> []"
  by (induction s) (auto split: list.splits)












text \<open>
  The parser on a longer string: entries on two lines and after a semicolon, times with
  a period, a time of four digits, a time with seconds, a range with a period on both
  ends, a day that is named twice, and a token that is no time (after a semicolon the
  word "noon" starts an entry of its own, which has no colon and is skipped).
\<close>

lemma parseAvailability_example:
  "map (parseAvailability (Val (''Monday: 9:00 am-10:00 am; 1:30 pm; noon'' @ [CHR 0x0A]
          @ ''Tuesday: 12:15 am; 0930;Wednesday: 12:00 pm; monday: 09:30; 08:00:00'')))
     [''monday'', ''tuesday'', ''wednesday'', ''thursday'']
   = [Some [''09:00'', ''09:30'', ''10:00'', ''13:30'', ''08:00''],
      Some [''00:15'', ''09:30''], Some [''12:00''], None]"
  by code_simp

text \<open>
  The query stores the table it parses in the cache it is given, under the student's id,
  and answers from the cache when the cache has a table for that id.
\<close>

lemma cache_write:
  "map_option (\<lambda>table. table ''monday'')
     (snd (isStudentAvailable_client (Some (rosterRow 1 ''Ann'' (JNumber (Num 1)) Null 1))
             ''Monday'' ''09:00'' Map.empty) 1) = Some (Some [''09:00''])"
  "fst (isStudentAvailable_client (Some (rosterRow 1 ''Ann'' (JNumber (Num 1)) Null 1))
          ''Monday'' ''09:00'' Map.empty) = Inr True"
  "fst (isStudentAvailable_client (Some (rosterRow 1 ''Ann'' (JNumber (Num 1)) Null 1))
          ''Monday'' ''09:00'' [1 \<mapsto> [''monday'' \<mapsto> [''10:00'']]]) = Inr False"
  by code_simp+




section \<open>Absent and invalid availability\<close>

lemma split_colon_no_colon: "CHR '':'' \<notin> set e \<Longrightarrow> split_colon e = None"
  by (induction e) auto

lemma split_entries_nonempty: "split_entries s \<noteq> []"
  by (induction s) (auto split: list.splits)

lemma set_split_entries: "e \<in> set (split_entries s) \<Longrightarrow> set e \<subseteq> set s"
proof (induction s arbitrary: e)
  case Nil
  then show ?case by simp
next
  case (Cons x xs)
  show ?case
  proof (cases "x = CHR 0x0A \<or> (x = CHR '';'' \<and> lookahead_day xs)")
    case True
    with Cons show ?thesis by auto
  next
    case False
    obtain h t where ht: "split_entries xs = h # t"
      using split_entries_nonempty[of xs] by (cases "split_entries xs") auto
    with False Cons.prems have "e = x # h \<or> e \<in> set t" by auto
    moreover have "set h \<subseteq> set xs" using Cons.IH[of h] ht by simp
    moreover have "set e \<subseteq> set xs" if "e \<in> set t" using Cons.IH[of e] ht that by simp
    ultimately show ?thesis by auto
  qed
qed

lemma set_trim: "set (trim e) \<subseteq> set e"
proof -
  have "set (dropWhile isSpace (rev (dropWhile isSpace e))) \<subseteq> set (rev (dropWhile isSpace e))"
    by (rule set_dropWhileD[THEN subsetI]) 
  also have "\<dots> \<subseteq> set e" using set_dropWhileD[of _ isSpace e] by auto
  finally show ?thesis by (simp add: trim_def)
qed

text \<open>
  Where the client's parser fails closed: an availability string that is undefined, null
  or has no colon gives the empty table, a token that is no time leaves the day's set as
  it is, and the table has no other keys than the seven days.
\<close>

lemma parseEntry_no_colon: "CHR '':'' \<notin> set e \<Longrightarrow> parseEntry avail e = avail"
  by (simp add: parseEntry_def split_colon_no_colon)

lemma foldl_parseEntry_no_colon:
  "list_all (\<lambda>e. CHR '':'' \<notin> set e) es \<Longrightarrow> foldl parseEntry avail es = avail"
  by (induction es arbitrary: avail) (simp_all add: parseEntry_no_colon)

lemma parseAvailability_no_colon:
  assumes "CHR '':'' \<notin> set str"
  shows "parseAvailability (Val str) = Map.empty"
proof -
  have "list_all (\<lambda>e. CHR '':'' \<notin> set e) (filter (\<lambda>e. e \<noteq> []) (map trim (split_entries str)))"
    using assms set_split_entries[of _ str] set_trim by (fastforce simp: list_all_iff)
  then show ?thesis by (simp add: parseAvailability_def foldl_parseEntry_no_colon)
qed

lemma parseAvailability_absent:
  "parseAvailability Undefined = Map.empty" "parseAvailability Null = Map.empty"
  by (simp_all add: parseAvailability_def)

lemma addTime_invalid_single:
  "CHR ''-'' \<notin> set tok \<Longrightarrow> parseTime tok = None \<Longrightarrow> addTime acc tok = acc"
  by (simp add: addTime_def formatTime_def)

lemma dom_parseEntry: "dom (parseEntry avail e) \<subseteq> dom avail \<union> set validDays"
  by (auto simp: parseEntry_def Let_def split: option.splits prod.splits if_splits)

lemma dom_foldl_parseEntry: "dom (foldl parseEntry avail es) \<subseteq> dom avail \<union> set validDays"
proof (induction es arbitrary: avail)
  case Nil
  show ?case by simp
next
  case (Cons e es)
  have "dom (foldl parseEntry (parseEntry avail e) es) \<subseteq> dom (parseEntry avail e) \<union> set validDays"
    by (rule Cons.IH)
  with dom_parseEntry[of avail e]
  have "dom (foldl parseEntry (parseEntry avail e) es) \<subseteq> dom avail \<union> set validDays"
    by blast
  then show ?case by simp
qed

lemma dom_parseAvailability: "dom (parseAvailability av) \<subseteq> set validDays"
proof (cases av)
  case (Val s)
  have "dom (foldl parseEntry Map.empty (filter (\<lambda>e. e \<noteq> []) (map trim (split_entries s))))
          \<subseteq> dom (Map.empty :: availability) \<union> set validDays"
    by (rule dom_foldl_parseEntry)
  with Val show ?thesis by (simp add: parseAvailability_def)
qed (simp_all add: parseAvailability_def)

lemma inherited_key_is_no_day: "k \<in> set objectPrototypeKeys \<Longrightarrow> k \<notin> set validDays"
  by (auto simp: objectPrototypeKeys_def validDays_def)

text \<open>
  The client's query. It answers "not available" for a target time that does not parse.
  On the table it has parsed itself, it throws exactly when the target day, in lower
  case, is a name that the table object inherits, and the target time parses; for every
  other input it returns.
\<close>

lemma client_bad_target:
  "parseTime t = None \<Longrightarrow> fst (isStudentAvailable_client sd day t cache) = Inr False"
  by (simp add: isStudentAvailable_client_def Let_def formatTime_def split: option.splits)

lemma client_throws_iff:
  "fst (isStudentAvailable_client (Some sd) day t (cache(id sd := None))) = Inl TypeError
     \<longleftrightarrow> day \<noteq> [] \<and> t \<noteq> [] \<and> parseTime t \<noteq> None \<and> toLowerCase day \<in> set objectPrototypeKeys"
proof -
  let ?av = "if or_null (availability_string sd) \<noteq> None then availability_string sd else availability sd"
  have none: "parseAvailability ?av (toLowerCase day) = None"
    if "toLowerCase day \<in> set objectPrototypeKeys"
    using inherited_key_is_no_day[OF that] dom_parseAvailability[of ?av] by blast
  show ?thesis
  proof (cases "toLowerCase day \<in> set objectPrototypeKeys")
    case True
    from none[OF True] True show ?thesis
      by (cases "parseTime t")
        (simp_all add: isStudentAvailable_client_def Let_def formatTime_def)
  next
    case False
    then show ?thesis
      by (cases "parseTime t")
        (simp_all add: isStudentAvailable_client_def Let_def formatTime_def split: option.splits)
  qed
qed

lemma client_absent_student:
  "fst (isStudentAvailable_client None day t cache) = Inr False"
  by (simp add: isStudentAvailable_client_def)

text \<open>
  Where the server's query fails closed: an availability string that is undefined, null,
  empty or without colon, and a target time that its pattern rejects.
\<close>

lemma startsWith_colon: "startsWith e (d @ '':'') \<Longrightarrow> CHR '':'' \<in> set e"
proof -
  assume "startsWith e (d @ '':'')"
  then have "take (length (d @ '':'')) e = d @ '':''" by (simp add: startsWith_def)
  then have "CHR '':'' \<in> set (take (length (d @ '':'')) e)" by simp
  then show ?thesis by (rule in_set_takeD)
qed

lemma serverEntry_no_colon:
  assumes "CHR '':'' \<notin> set e"
  shows "serverEntry (avail, None) e = (avail, None)"
proof -
  have "CHR '':'' \<notin> set (trim e)" using assms set_trim by blast
  then have "find (\<lambda>day. startsWith (trim e) (day @ '':'')) validDays_server = None"
    using startsWith_colon by (auto simp: find_None_iff)
  then show ?thesis by (simp add: serverEntry_def Let_def)
qed

lemma set_split_on: "e \<in> set (split_on c s) \<Longrightarrow> set e \<subseteq> set s"
proof (induction s arbitrary: e)
  case Nil
  then show ?case by simp
next
  case (Cons x xs)
  show ?case
  proof (cases "x = c")
    case True
    with Cons show ?thesis by auto
  next
    case False
    obtain h t where ht: "split_on c xs = h # t"
      using split_on_nonempty[of c xs] by (cases "split_on c xs") auto
    with False Cons.prems have "e = x # h \<or> e \<in> set t" by auto
    moreover have "set h \<subseteq> set xs" using Cons.IH[of h] ht by simp
    moreover have "set e \<subseteq> set xs" if "e \<in> set t" using Cons.IH[of e] ht that by simp
    ultimately show ?thesis by auto
  qed
qed

lemma foldl_serverEntry_no_colon:
  "list_all (\<lambda>e. CHR '':'' \<notin> set e) es \<Longrightarrow> foldl serverEntry (avail, None) es = (avail, None)"
  by (induction es arbitrary: avail) (simp_all add: serverEntry_no_colon)

lemma server_no_colon:
  assumes "CHR '':'' \<notin> set str"
  shows "isStudentAvailable_server (Val str) day t = False"
proof -
  have "list_all (\<lambda>e. CHR '':'' \<notin> set e) (split_on CHR '';'' str)"
    using assms set_split_on[of _ "CHR '';''" str] by (fastforce simp: list_all_iff)
  then have "foldl serverEntry (Map.empty, None) (split_on CHR '';'' str) = (Map.empty, None)"
    by (rule foldl_serverEntry_no_colon)
  then show ?thesis
    by (simp add: isStudentAvailable_server_def lookupDay_def Let_def split: option.splits)
qed

lemma server_absent:
  "isStudentAvailable_server Undefined day t = False"
  "isStudentAvailable_server Null day t = False"
  "isStudentAvailable_server (Val []) day t = False"
  by (simp_all add: isStudentAvailable_server_def)

lemma server_bad_target:
  "\<not> timeRegex (take 5 t) \<Longrightarrow> isStudentAvailable_server av day t = False"
  by (auto simp: isStudentAvailable_server_def Let_def split: option.splits)

lemma push_time_invalid: "\<not> timeRegex tp \<Longrightarrow> push_time avail d tp = avail"
  by (simp add: push_time_def)

text \<open>
  C7 fails in the code, in two places. The client's query reads the day's set with
  \<open>parsedAvailability[targetDayLower]\<close> from a plain object and calls \<open>has\<close> on what it
  gets: for the target day "constructor" or "__proto__" that is an inherited value, not a
  set, and the call throws a \<open>TypeError\<close>, for a student with a well-formed availability
  string as for one without any. The server's query reads its table the same way, inside
  a \<open>try\<close> whose \<open>catch\<close> answers false. And the server's pattern for a time is two
  digits, a colon and two digits: the token "99:99" is not skipped, the server keeps it
  and answers "available" at 99:99, where the client's parser rejects it.
\<close>

theorem C7_client_query_throws:
  "fst (isStudentAvailable_client (Some (rosterRow 1 ''Ann'' (JNumber (Num 1)) Null 1))
          ''constructor'' ''09:00'' Map.empty) = Inl TypeError
   \<and> fst (isStudentAvailable_client
            (Some ((rosterRow 1 ''Ann'' (JNumber (Num 1)) Null 1)\<lparr>availability_string := Null\<rparr>))
            ''__proto__'' ''09:00'' Map.empty) = Inl TypeError
   \<and> lookupDay (fst (foldl serverEntry (Map.empty, None) (split_on CHR '';'' ''Monday: 09:00'')))
        ''constructor'' ''09:00'' = Inl TypeError
   \<and> isStudentAvailable_server (Val ''Monday: 09:00'') ''constructor'' ''09:00'' = False
   \<and> isStudentAvailable_server (Val ''Monday: 99:99'') ''Monday'' ''99:99'' = True
   \<and> fst (isStudentAvailable_client
            (Some ((rosterRow 1 ''Ann'' (JNumber (Num 1)) Null 1)
                      \<lparr>availability_string := Val ''Monday: 99:99''\<rparr>))
            ''Monday'' ''99:99'' Map.empty) = Inr False"
  by code_simp

end
